theory Spec2Isabelle
  imports Complex_Main "HOL-Library.Sublist" "HOL-Library.AList"
begin

section \<open>Values, arrays and errors\<close>

text \<open>
  The report object of \<^verbatim>\<open>metricsreport.py\<close> is built from two numeric sequences.
  NumPy turns a list of Python ints into an integer array and anything containing a
  float into a float array; the element type decides how a value is displayed later,
  so the array type keeps it.  The elements of an array are finite numbers, given by
  their exact values; arrays are one-dimensional.
\<close>

datatype ndarray = IntArray "int list" | FloatArray "real list"

fun vals :: "ndarray \<Rightarrow> real list" where
  "vals (IntArray xs) = map real_of_int xs"
| "vals (FloatArray xs) = xs"

text \<open>
  The result of a floating-point operation is a finite number, an infinity or NaN
  (NumPy divides by zero with a warning, not an exception).  What the operations
  compute, rounding included, is left to the arithmetic that carries them out, which is
  a parameter below.
\<close>

datatype float64 = Finite real | PosInf | NegInf | NaN

text \<open>A scalar, as an array element or as a value in one of the report's dictionaries.\<close>

datatype pyval = PyFloat float64 | PyInt int

fun elems :: "ndarray \<Rightarrow> pyval list" where
  "elems (IntArray xs) = map PyInt xs"
| "elems (FloatArray xs) = map (\<lambda>x. PyFloat (Finite x)) xs"

text \<open>Arithmetic on 64-bit integers wraps around.\<close>

definition wrap64 :: "int \<Rightarrow> int" where
  "wrap64 i = (i + 2 ^ 63) mod 2 ^ 64 - 2 ^ 63"

text \<open>Every exception the code or one of its collaborators can raise is a value.\<close>

datatype error =
    ValueError
  | ZeroDivisionError
  | AttributeError
  | UnboundLocalError
  | FileNotFoundError
  | FileExistsError
  | NotADirectoryError
  | IsADirectoryError
  | OSError
  | LibraryError string

section \<open>Task type\<close>

text \<open>
  \<^verbatim>\<open>np.unique\<close> sorts the flattened input and keeps the first element of every run of
  equal neighbours.
\<close>

definition np_unique :: "'a::linorder list \<Rightarrow> 'a list" where
  "np_unique xs = remdups_adj (sort xs)"

text \<open>
  \<^verbatim>\<open>
  def _determine_task_type(self, y_true) -> str:
      if len(np.unique(y_true)) > 2:
          return "regression"
      else:
          return "classification"
  \<close>
\<close>

definition determine_task_type :: "ndarray \<Rightarrow> string" where
  "determine_task_type y_true =
     (if length (np_unique (vals y_true)) > 2 then ''regression'' else ''classification'')"

section \<open>The outside world\<close>

text \<open>
  The methods print to the console, show figures and read and write the file system.
  The world is threaded through every method that touches it.  \<open>files\<close> lists every
  node below the root directory with its absolute path, one component per element; the
  root itself always exists.  The order of the list is the order in which the operating
  system enumerates directory entries.
\<close>

datatype node = Dir | File string

type_synonym path = "string list"

record world =
  files :: "(path \<times> node) list"
  cwd :: path
  console :: "string list"
  shown :: "string list"

definition print :: "string \<Rightarrow> world \<Rightarrow> world" where
  "print line w = w\<lparr>console := console w @ [line]\<rparr>"

section \<open>Collaborators\<close>

text \<open>
  The metric formulas, the chart renderers, the Markdown converter and the text
  formatting of floats and tables belong to other packages (scikit-learn, scikit-plot,
  plot-metric, matplotlib, markdownify, pandas) or, for \<open>lift\<close>, to a module of the
  repository that is not among the sources.  The floating-point arithmetic is NumPy's
  and the machine's: the conversion of a 64-bit integer to a float, the operators \<^verbatim>\<open>+ - * /\<close> on float scalars and arrays, \<^verbatim>\<open>np.abs\<close>,
  \<^verbatim>\<open>np.mean\<close>, \<^verbatim>\<open>np.std\<close> and \<^verbatim>\<open>round\<close> on a NumPy float.  All of them are parameters: a
  function of the arguments the code passes, which returns a value or raises.  A
  theorem about an arbitrary \<open>library\<close> holds for the real one.
  \<open>draw\<close> and \<open>draw_probas\<close> stand for the body of a \<^verbatim>\<open>plot_*\<close> method: given the plot's
  key and the data it returns the figure, as the bytes \<^verbatim>\<open>savefig\<close> would write.
\<close>

record library =
  roc_auc_score :: "real list \<Rightarrow> real list \<Rightarrow> error + float64"
  log_loss :: "real list \<Rightarrow> real list \<Rightarrow> error + float64"
  average_precision_score :: "real list \<Rightarrow> real list \<Rightarrow> error + float64"
  accuracy_score :: "real list \<Rightarrow> int list \<Rightarrow> error + float64"
  precision_score_weighted :: "real list \<Rightarrow> int list \<Rightarrow> error + float64"
  recall_score_weighted :: "real list \<Rightarrow> int list \<Rightarrow> error + float64"
  f1_score_weighted :: "real list \<Rightarrow> int list \<Rightarrow> error + float64"
  matthews_corrcoef :: "real list \<Rightarrow> int list \<Rightarrow> error + float64"
  mean_squared_error :: "real list \<Rightarrow> real list \<Rightarrow> error + float64"
  mean_squared_log_error :: "real list \<Rightarrow> real list \<Rightarrow> error + float64"
  mean_absolute_error :: "real list \<Rightarrow> real list \<Rightarrow> error + float64"
  r2_score :: "real list \<Rightarrow> real list \<Rightarrow> error + float64"
  explained_variance_score :: "real list \<Rightarrow> real list \<Rightarrow> error + float64"
  max_error :: "real list \<Rightarrow> real list \<Rightarrow> error + float64"
  classification_report :: "real list \<Rightarrow> int list \<Rightarrow> error + string"
  lift :: "real list \<Rightarrow> real list \<Rightarrow> error + string"
  draw :: "string \<Rightarrow> real list \<Rightarrow> real list \<Rightarrow> error + string"
  draw_probas :: "string \<Rightarrow> real list \<Rightarrow> (pyval \<times> pyval) list \<Rightarrow> error + string"
  markdownify :: "string \<Rightarrow> error + string"
  np_float64 :: "int \<Rightarrow> float64"
  np_add :: "float64 \<Rightarrow> float64 \<Rightarrow> float64"
  np_subtract :: "float64 \<Rightarrow> float64 \<Rightarrow> float64"
  np_multiply :: "float64 \<Rightarrow> float64 \<Rightarrow> float64"
  np_true_divide :: "float64 \<Rightarrow> float64 \<Rightarrow> float64"
  np_absolute :: "float64 \<Rightarrow> float64"
  np_mean :: "float64 list \<Rightarrow> float64"
  np_std :: "float64 list \<Rightarrow> float64"
  py_round :: "float64 \<Rightarrow> nat \<Rightarrow> float64"
  str_float :: "real \<Rightarrow> string"
  dataframe_repr :: "(string \<times> pyval) list \<Rightarrow> string"

definition bind_res :: "error + 'a \<Rightarrow> ('a \<Rightarrow> error + 'b) \<Rightarrow> error + 'b" where
  "bind_res m f = (case m of Inl e \<Rightarrow> Inl e | Inr x \<Rightarrow> f x)"

section \<open>Scalar operations\<close>

text \<open>
  NumPy's element types meet in three ways.  Two integers are added and subtracted as
  64-bit integers; a float with anything is computed in floating point; \<^verbatim>\<open>/\<close> is always
  a floating-point division.
\<close>

fun as_float :: "library \<Rightarrow> pyval \<Rightarrow> float64" where
  "as_float lib (PyFloat f) = f"
| "as_float lib (PyInt i) = np_float64 lib i"

fun py_add :: "library \<Rightarrow> pyval \<Rightarrow> pyval \<Rightarrow> pyval" where
  "py_add lib (PyInt a) (PyInt b) = PyInt (wrap64 (a + b))"
| "py_add lib x y = PyFloat (np_add lib (as_float lib x) (as_float lib y))"

fun py_sub :: "library \<Rightarrow> pyval \<Rightarrow> pyval \<Rightarrow> pyval" where
  "py_sub lib (PyInt a) (PyInt b) = PyInt (wrap64 (a - b))"
| "py_sub lib x y = PyFloat (np_subtract lib (as_float lib x) (as_float lib y))"

definition py_div :: "library \<Rightarrow> pyval \<Rightarrow> pyval \<Rightarrow> pyval" where
  "py_div lib x y = PyFloat (np_true_divide lib (as_float lib x) (as_float lib y))"

fun py_abs :: "library \<Rightarrow> pyval \<Rightarrow> pyval" where
  "py_abs lib (PyInt a) = PyInt (wrap64 \<bar>a\<bar>)"
| "py_abs lib (PyFloat f) = PyFloat (np_absolute lib f)"

section \<open>The confusion matrix\<close>

text \<open>
  Modelled from the spec: \<^verbatim>\<open>confusion_matrix\<close> is scikit-learn's and not among the
  sources; the spec says only that the counts TN, FP, FN, TP are "derived from y_true
  vs pred_binary".  The definition is the library's documented contract: the labels
  are the sorted distinct values of both arrays together, and entry \<open>(i, j)\<close> counts the
  samples whose true label is the \<open>i\<close>-th and whose predicted label is the \<open>j\<close>-th one.
  Arrays of different lengths and non-integral targets are refused.
\<close>

definition confusion_matrix :: "real list \<Rightarrow> int list \<Rightarrow> error + int list list" where
  "confusion_matrix yt yp =
     (if length yt \<noteq> length yp then Inl ValueError
      else if list_ex (\<lambda>t. real_of_int \<lfloor>t\<rfloor> \<noteq> t) yt then Inl ValueError
      else
        let labels = np_unique (yt @ map real_of_int yp)
        in Inr (map (\<lambda>i. map (\<lambda>j. int (length (filter (\<lambda>(t, p). t = i \<and> real_of_int p = j)
                                                   (zip yt yp)))) labels) labels))"

text \<open>\<^verbatim>\<open>.ravel()\<close> lays the rows of the matrix end to end.\<close>

definition ravel :: "'a list list \<Rightarrow> 'a list" where
  "ravel m = concat m"

text \<open>\<^verbatim>\<open>tn, fp, fn, tp = ...\<close> raises unless there are exactly four values to unpack.\<close>

fun unpack4 :: "'a list \<Rightarrow> error + ('a \<times> 'a \<times> 'a \<times> 'a)" where
  "unpack4 [a, b, c, d] = Inr (a, b, c, d)"
| "unpack4 _ = Inl ValueError"

section \<open>The report object\<close>

text \<open>
  The attributes \<^verbatim>\<open>y_pred_binary\<close> and \<^verbatim>\<open>probas_reval\<close> exist on a classification report
  only, \<^verbatim>\<open>y_pred_nonnegative\<close> on a regression report only.  A dictionary keeps the
  order in which its keys were inserted, so \<open>metrics\<close> and \<open>target_info\<close> are lists of
  pairs.
\<close>

record metrics_report =
  task_type :: string
  y_true :: ndarray
  y_pred :: ndarray
  threshold :: real
  metrics :: "(string \<times> pyval) list"
  target_info :: "(string \<times> pyval) list"
  y_pred_binary :: "int list option"
  probas_reval :: "(pyval \<times> pyval) list option"
  y_pred_nonnegative :: "ndarray option"

text \<open>
  \<^verbatim>\<open>
  tn, fp, fn, tp = confusion_matrix(self.y_true, self.y_pred_binary).ravel()
  metrics = {
      'AUC': round(roc_auc_score(self.y_true, self.y_pred), 4),
      'Log Loss': round(log_loss(self.y_true, self.y_pred), 4),
      'Average_Precision': round(average_precision_score(self.y_true, self.y_pred), 4),
      'Accuracy': round(accuracy_score(self.y_true, self.y_pred_binary), 4),
      'Precision': round(precision_score(self.y_true, self.y_pred_binary, average='weighted'), 4),
      'Recall': round(recall_score(self.y_true, self.y_pred_binary, average='weighted'), 4),
      'F1 Score': round(f1_score(self.y_true, self.y_pred_binary, average='weighted'), 4),
      'MCC': round(matthews_corrcoef(self.y_true, self.y_pred_binary), 4),
      'TN': tn, 'FP': fp, 'FN': fn, 'TP': tp,
  }
  return metrics
  \<close>
  The entries are evaluated in this order, and the first call that raises ends the
  method.
\<close>

definition generate_classification_metrics ::
  "library \<Rightarrow> metrics_report \<Rightarrow> error + (string \<times> pyval) list" where
  "generate_classification_metrics lib self =
     (let yt = vals (y_true self); yp = vals (y_pred self) in
      case y_pred_binary self of
        None \<Rightarrow> Inl AttributeError
      | Some ypb \<Rightarrow>
          bind_res (confusion_matrix yt ypb) (\<lambda>cm.
          bind_res (unpack4 (ravel cm)) (\<lambda>(tn, fp, fn, tp).
          bind_res (roc_auc_score lib yt yp) (\<lambda>auc.
          bind_res (log_loss lib yt yp) (\<lambda>ll.
          bind_res (average_precision_score lib yt yp) (\<lambda>ap.
          bind_res (accuracy_score lib yt ypb) (\<lambda>acc.
          bind_res (precision_score_weighted lib yt ypb) (\<lambda>prec.
          bind_res (recall_score_weighted lib yt ypb) (\<lambda>rec.
          bind_res (f1_score_weighted lib yt ypb) (\<lambda>f1.
          bind_res (matthews_corrcoef lib yt ypb) (\<lambda>mcc.
            Inr [(''AUC'', PyFloat (py_round lib auc 4)),
                 (''Log Loss'', PyFloat (py_round lib ll 4)),
                 (''Average_Precision'', PyFloat (py_round lib ap 4)),
                 (''Accuracy'', PyFloat (py_round lib acc 4)),
                 (''Precision'', PyFloat (py_round lib prec 4)),
                 (''Recall'', PyFloat (py_round lib rec 4)),
                 (''F1 Score'', PyFloat (py_round lib f1 4)),
                 (''MCC'', PyFloat (py_round lib mcc 4)),
                 (''TN'', PyInt tn),
                 (''FP'', PyInt fp),
                 (''FN'', PyInt fn),
                 (''TP'', PyInt tp)])))))))))))"

text \<open>
  NumPy combines two arrays element by element when they have the same length, repeats
  the single element of an array of length one, and raises otherwise.
\<close>

definition np_broadcast :: "'a list \<Rightarrow> 'a list \<Rightarrow> error + ('a \<times> 'a) list" where
  "np_broadcast xs ys =
     (if length xs = length ys then Inr (zip xs ys)
      else if length xs = 1 then Inr (map (\<lambda>y. (hd xs, y)) ys)
      else if length ys = 1 then Inr (map (\<lambda>x. (x, hd ys)) xs)
      else Inl ValueError)"

text \<open>
  \<^verbatim>\<open>round(np.mean(np.abs((self.y_true - self.y_pred) / self.y_true)) * 100, 1)\<close>:
  the difference and the quotient element by element, the absolute value of each
  quotient, their mean, the product with 100, and \<^verbatim>\<open>round\<close> to one digit.
\<close>

definition mean_absolute_percentage_error ::
  "library \<Rightarrow> pyval list \<Rightarrow> pyval list \<Rightarrow> error + pyval" where
  "mean_absolute_percentage_error lib yt yp =
     bind_res (np_broadcast yt yp) (\<lambda>tp.
       Inr (PyFloat (py_round lib
              (np_multiply lib
                 (np_mean lib (map (\<lambda>(t, p). as_float lib (py_abs lib (py_div lib (py_sub lib t p) t))) tp))
                 (np_float64 lib 100))
              1)))"

text \<open>
  \<^verbatim>\<open>
  metrics = {
      'Mean Squared Error': round(mean_squared_error(self.y_true, self.y_pred), 4),
      'Mean Squared Log Error': round(mean_squared_log_error(self.y_true, self.y_pred_nonnegative), 4),
      'Mean Absolute Error': round(mean_absolute_error(self.y_true, self.y_pred), 4),
      'R^2': round(r2_score(self.y_true, self.y_pred), 4),
      'Explained Variance Score': round(explained_variance_score(self.y_true, self.y_pred), 4),
      'Max Error': round(max_error(self.y_true, self.y_pred), 4),
      'Mean Absolute Percentage Error': round(np.mean(np.abs((self.y_true - self.y_pred) / self.y_true)) * 100, 1),
  }
  return metrics
  \<close>
\<close>

definition generate_regression_metrics ::
  "library \<Rightarrow> metrics_report \<Rightarrow> error + (string \<times> pyval) list" where
  "generate_regression_metrics lib self =
     (let yt = vals (y_true self); yp = vals (y_pred self) in
      bind_res (mean_squared_error lib yt yp) (\<lambda>mse.
      case y_pred_nonnegative self of
        None \<Rightarrow> Inl AttributeError
      | Some ypn \<Rightarrow>
          bind_res (mean_squared_log_error lib yt (vals ypn)) (\<lambda>msle.
          bind_res (mean_absolute_error lib yt yp) (\<lambda>mae.
          bind_res (r2_score lib yt yp) (\<lambda>r2.
          bind_res (explained_variance_score lib yt yp) (\<lambda>evs.
          bind_res (max_error lib yt yp) (\<lambda>me.
          bind_res (mean_absolute_percentage_error lib (elems (y_true self)) (elems (y_pred self)))
            (\<lambda>mape.
            Inr [(''Mean Squared Error'', PyFloat (py_round lib mse 4)),
                 (''Mean Squared Log Error'', PyFloat (py_round lib msle 4)),
                 (''Mean Absolute Error'', PyFloat (py_round lib mae 4)),
                 (''R^2'', PyFloat (py_round lib r2 4)),
                 (''Explained Variance Score'', PyFloat (py_round lib evs 4)),
                 (''Max Error'', PyFloat (py_round lib me 4)),
                 (''Mean Absolute Percentage Error'', mape)]))))))))"

text \<open>\<^verbatim>\<open>np.maximum(self.y_pred, 0)\<close> keeps the element type of the array.\<close>

fun np_maximum0 :: "ndarray \<Rightarrow> ndarray" where
  "np_maximum0 (IntArray xs) = IntArray (map (\<lambda>x. max x 0) xs)"
| "np_maximum0 (FloatArray xs) = FloatArray (map (\<lambda>x. max x 0) xs)"

text \<open>
  The constructor.
  \<^verbatim>\<open>
  self.task_type = self._determine_task_type(y_true)
  print(f'Detecting {self.task_type} task type')
  self.y_true = np.array(y_true)
  self.y_pred = np.array(y_pred)
  self.threshold = threshold
  self.metrics = {}
  self.target_info = {}
  if self.task_type == "classification":
      self.y_pred_binary = (self.y_pred > self.threshold).astype(int)
      self.probas_reval = pd.DataFrame({"proba_0": 1 - self.y_pred.ravel(), "proba_1": self.y_pred.ravel()})
      self.metrics = self._generate_classification_metrics()
  else:
      self.y_pred_nonnegative = np.maximum(self.y_pred, 0)
      self.metrics = self._generate_regression_metrics()
  \<close>
  An exception in the constructor leaves no object behind.
\<close>

definition MetricsReport ::
  "library \<Rightarrow> ndarray \<Rightarrow> ndarray \<Rightarrow> real \<Rightarrow> world \<Rightarrow> (error + metrics_report) \<times> world" where
  "MetricsReport lib y_true0 y_pred0 threshold0 w =
     (let tt = determine_task_type y_true0;
          w1 = print (''Detecting '' @ tt @ '' task type'') w;
          self = \<lparr>task_type = tt, y_true = y_true0, y_pred = y_pred0, threshold = threshold0,
                  metrics = [], target_info = [], y_pred_binary = None, probas_reval = None,
                  y_pred_nonnegative = None\<rparr>
      in if tt = ''classification'' then
           let self1 = self\<lparr>y_pred_binary :=
                              Some (map (\<lambda>p. if p > threshold0 then 1 else 0) (vals y_pred0)),
                            probas_reval :=
                              Some (map (\<lambda>p. (py_sub lib (PyInt 1) p, p)) (elems y_pred0))\<rparr>
           in (case generate_classification_metrics lib self1 of
                 Inl e \<Rightarrow> (Inl e, w1)
               | Inr m \<Rightarrow> (Inr (self1\<lparr>metrics := m\<rparr>), w1))
         else
           let self1 = self\<lparr>y_pred_nonnegative := Some (np_maximum0 y_pred0)\<rparr>
           in (case generate_regression_metrics lib self1 of
                 Inl e \<Rightarrow> (Inl e, w1)
               | Inr m \<Rightarrow> (Inr (self1\<lparr>metrics := m\<rparr>), w1)))"

text \<open>
  The spec's wording of the percentage error, for comparison with the code's:
  \<^verbatim>\<open>mean(|y_true - y_pred| / y_true) * 100\<close>, rounded to one decimal place.  Here the
  absolute value is taken of the difference, before the division.
\<close>

definition spec_percentage_error :: "library \<Rightarrow> pyval list \<Rightarrow> pyval list \<Rightarrow> float64" where
  "spec_percentage_error lib yt yp =
     py_round lib
       (np_multiply lib
          (np_mean lib (map (\<lambda>(t, p). as_float lib (py_div lib (py_abs lib (py_sub lib t p)) t)) (zip yt yp)))
          (np_float64 lib 100))
       1"

section \<open>Paths and the file system\<close>

text \<open>
  A path string is cut at every \<^verbatim>\<open>/\<close> and resolved against the working directory the
  way \<^verbatim>\<open>os.path.abspath\<close> does it: an empty component and \<^verbatim>\<open>.\<close> stay where they are,
  \<^verbatim>\<open>..\<close> steps to the parent, and the root is its own parent.  The system resolves a
  path the same way when there are no symbolic links and the directory that a \<^verbatim>\<open>..\<close> is
  looked up in exists; neither symbolic links nor a missing directory before a \<^verbatim>\<open>..\<close>
  are modelled, and the statements about files are made for paths without \<^verbatim>\<open>..\<close>.
\<close>

fun split_at_slash :: "string \<Rightarrow> string \<Rightarrow> string list" where
  "split_at_slash cur [] = [cur]"
| "split_at_slash cur (c # cs) =
     (if c = CHR ''/'' then cur # split_at_slash [] cs else split_at_slash (cur @ [c]) cs)"

definition enter :: "path \<Rightarrow> string \<Rightarrow> path" where
  "enter dir c =
     (if c = [] \<or> c = ''.'' then dir else if c = ''..'' then butlast dir else dir @ [c])"

definition plain :: "string \<Rightarrow> bool" where
  "plain p \<longleftrightarrow> ''..'' \<notin> set (split_at_slash [] p)"

definition abspath :: "world \<Rightarrow> string \<Rightarrow> path" where
  "abspath w p =
     foldl enter (if p \<noteq> [] \<and> hd p = CHR ''/'' then [] else cwd w) (split_at_slash [] p)"

definition node_at :: "world \<Rightarrow> path \<Rightarrow> node option" where
  "node_at w q = (if q = [] then Some Dir else map_of (files w) q)"

text \<open>A method that touches the world returns its result, or the exception, and the world it leaves.\<close>

type_synonym 'a io = "world \<Rightarrow> (error + 'a) \<times> world"

definition then_io :: "(error + 'a) \<times> world \<Rightarrow> ('a \<Rightarrow> 'b io) \<Rightarrow> (error + 'b) \<times> world" where
  "then_io m f = (case m of (Inl e, w) \<Rightarrow> (Inl e, w) | (Inr x, w) \<Rightarrow> f x w)"

text \<open>\<^verbatim>\<open>os.path.exists\<close> never raises; the empty string names nothing.\<close>

definition os_path_exists :: "string \<Rightarrow> world \<Rightarrow> bool" where
  "os_path_exists p w \<longleftrightarrow> p \<noteq> [] \<and> node_at w (abspath w p) \<noteq> None"

text \<open>
  \<^verbatim>\<open>shutil.rmtree\<close> removes everything below a directory and then the directory itself
  with \<^verbatim>\<open>os.rmdir\<close> on the path as it was given.  It raises when the path is missing or
  names a plain file.  The last step fails, after the directory has been emptied, when
  the path ends in \<^verbatim>\<open>.\<close> or \<^verbatim>\<open>..\<close> or names the root.
\<close>

definition last_component :: "string \<Rightarrow> string" where
  "last_component p = (case filter (\<lambda>c. c \<noteq> []) (split_at_slash [] p) of [] \<Rightarrow> [] | cs \<Rightarrow> last cs)"

definition shutil_rmtree :: "string \<Rightarrow> unit io" where
  "shutil_rmtree p w =
     (let q = abspath w p in
      if p = [] then (Inl FileNotFoundError, w)
      else case node_at w q of
        None \<Rightarrow> (Inl FileNotFoundError, w)
      | Some (File _) \<Rightarrow> (Inl NotADirectoryError, w)
      | Some Dir \<Rightarrow>
          if q = [] \<or> last_component p = ''.'' \<or> last_component p = ''..''
          then (Inl OSError, w\<lparr>files := filter (\<lambda>(k, _). \<not> strict_prefix q k) (files w)\<rparr>)
          else (Inr (), w\<lparr>files := filter (\<lambda>(k, _). \<not> prefix q k) (files w)\<rparr>))"

text \<open>
  \<^verbatim>\<open>os.makedirs\<close> (with \<^verbatim>\<open>exist_ok=False\<close>) creates the directory and every missing
  ancestor.  It raises when the path already exists, and when an ancestor is a plain
  file.
\<close>

definition is_file :: "world \<Rightarrow> path \<Rightarrow> bool" where
  "is_file w q = (case node_at w q of Some (File _) \<Rightarrow> True | _ \<Rightarrow> False)"

definition os_makedirs :: "string \<Rightarrow> unit io" where
  "os_makedirs p w =
     (let q = abspath w p in
      if p = [] then (Inl FileNotFoundError, w)
      else if node_at w q \<noteq> None then (Inl FileExistsError, w)
      else if list_ex (is_file w) (prefixes q) then (Inl NotADirectoryError, w)
      else (Inr (), w\<lparr>files := files w @
              map (\<lambda>a. (a, Dir)) (filter (\<lambda>a. node_at w a = None) (prefixes q))\<rparr>))"

text \<open>
  Opening a file for writing and writing \<open>content\<close> to it, as \<^verbatim>\<open>open(p, 'w')\<close> with
  \<^verbatim>\<open>f.write\<close> and as \<^verbatim>\<open>plt.savefig(p)\<close> do: the file is created or replaced; the
  directory that holds it must exist.
\<close>

definition write_file :: "string \<Rightarrow> string \<Rightarrow> unit io" where
  "write_file p content w =
     (let q = abspath w p in
      if p = [] then (Inl FileNotFoundError, w)
      else if node_at w q = Some Dir then (Inl IsADirectoryError, w)
      else case node_at w (butlast q) of
        None \<Rightarrow> (Inl FileNotFoundError, w)
      | Some (File _) \<Rightarrow> (Inl NotADirectoryError, w)
      | Some Dir \<Rightarrow> (Inr (), w\<lparr>files := AList.update q (File content) (files w)\<rparr>))"

text \<open>\<^verbatim>\<open>os.listdir\<close> names the entries of a directory, in the system's order.\<close>

definition os_listdir :: "string \<Rightarrow> world \<Rightarrow> error + string list" where
  "os_listdir p w =
     (let q = abspath w p in
      if p = [] then Inl FileNotFoundError
      else case node_at w q of
        None \<Rightarrow> Inl FileNotFoundError
      | Some (File _) \<Rightarrow> Inl NotADirectoryError
      | Some Dir \<Rightarrow>
          Inr (map (\<lambda>(k, _). last k) (filter (\<lambda>(k, _). k \<noteq> [] \<and> butlast k = q) (files w))))"

text \<open>\<^verbatim>\<open>plt.show()\<close> puts the current figure on the screen.\<close>

definition plt_show :: "string \<Rightarrow> unit io" where
  "plt_show fig w = (Inr (), w\<lparr>shown := shown w @ [fig]\<rparr>)"

section \<open>The HTML template\<close>

text \<open>
  The literal text of the style sheet and of the document around its six holes, line by
  line as in the source; \<^verbatim>\<open>"\n".join\<close> puts the line breaks back.
\<close>

definition nl :: string where
  "nl = [CHR 0x0A]"

fun join_lines :: "string list \<Rightarrow> string" where
  "join_lines [] = []"
| "join_lines [l] = l"
| "join_lines (l # ls) = l @ nl @ join_lines ls"

definition css_text :: string where
  "css_text = join_lines
       ['''',
        ''        <style>'',
        ''            body {'',
        ''                font-family: Arial, sans-serif;'',
        ''                font-size: 16px;'',
        ''                line-height: 1.5;'',
        ''            }'',
        '''',
        ''            h1, h2 {'',
        ''                margin-top: 40px;'',
        ''                margin-bottom: 20px;'',
        ''            }'',
        '''',
        ''            table {'',
        ''                border-collapse: collapse;'',
        ''                margin-bottom: 40px;'',
        ''            }'',
        '''',
        ''            th, td {'',
        ''                border: 1px solid #ccc;'',
        ''                padding: 8px;'',
        ''            }'',
        '''',
        ''            th {'',
        ''                background-color: #f2f2f2;'',
        ''            }'',
        '''',
        ''            img {'',
        ''                max-width: 100%;'',
        ''                height: auto;'',
        ''            }'',
        ''        </style>'',
        ''        '']"

definition html_part1 :: string where
  "html_part1 = join_lines
       ['''',
        ''        <!DOCTYPE html>'',
        ''        <html>'',
        ''            <head>'',
        ''                '']"

definition html_part2 :: string where
  "html_part2 = join_lines
       ['''',
        ''            </head>'',
        ''            <body>'',
        ''                <h1>Metrics Report</h1>'',
        ''                <h4>Type: '']"

definition html_part3 :: string where
  "html_part3 = join_lines
       [''</h4>'',
        ''                <h2>Data info</h2>'',
        ''                <table>'',
        ''                    <thead>'',
        ''                        <tr>'',
        ''                            <th>Info</th>'',
        ''                            <th>Value</th>'',
        ''                        </tr>'',
        ''                    </thead>'',
        ''                    <tbody>'',
        ''                        '']"

definition html_part4 :: string where
  "html_part4 = join_lines
       ['''',
        ''                    </tbody>'',
        ''                </table>'',
        ''                <h2>Metrics</h2>'',
        ''                <p><b>threshold: '']"

definition html_part5 :: string where
  "html_part5 = join_lines
       [''</b></p>'',
        ''                <table>'',
        ''                    <thead>'',
        ''                        <tr>'',
        ''                            <th>Metric</th>'',
        ''                            <th>Value</th>'',
        ''                        </tr>'',
        ''                    </thead>'',
        ''                    <tbody>'',
        ''                        '']"

definition html_part6 :: string where
  "html_part6 = join_lines
       ['''',
        ''                    </tbody>'',
        ''                </table>'',
        ''                <h2>Plots</h2>'',
        ''                '']"

definition html_part7 :: string where
  "html_part7 = join_lines
       ['''',
        ''            </body>'',
        ''        </html>'',
        ''        '']"

section \<open>Plots\<close>

text \<open>
  Each \<^verbatim>\<open>plot_*\<close> method hands the data to a chart library and returns the figure.  The
  four scikit-plot charts read \<^verbatim>\<open>self.probas_reval\<close>.
\<close>

definition plot_roc_curve :: "library \<Rightarrow> metrics_report \<Rightarrow> error + string" where
  "plot_roc_curve lib self = draw lib ''roc_curve'' (vals (y_true self)) (vals (y_pred self))"

definition plot_precision_recall_curve :: "library \<Rightarrow> metrics_report \<Rightarrow> error + string" where
  "plot_precision_recall_curve lib self =
     draw lib ''precision_recall_curve'' (vals (y_true self)) (vals (y_pred self))"

definition plot_confusion_matrix :: "library \<Rightarrow> metrics_report \<Rightarrow> error + string" where
  "plot_confusion_matrix lib self =
     draw lib ''confusion_matrix'' (vals (y_true self)) (vals (y_pred self))"

definition plot_class_distribution :: "library \<Rightarrow> metrics_report \<Rightarrow> error + string" where
  "plot_class_distribution lib self =
     draw lib ''class_distribution'' (vals (y_true self)) (vals (y_pred self))"

definition plot_calibration_curve :: "library \<Rightarrow> metrics_report \<Rightarrow> error + string" where
  "plot_calibration_curve lib self =
     (case probas_reval self of
        None \<Rightarrow> Inl AttributeError
      | Some probas \<Rightarrow> draw_probas lib ''calibration_curve'' (vals (y_true self)) probas)"

definition plot_lift_curve :: "library \<Rightarrow> metrics_report \<Rightarrow> error + string" where
  "plot_lift_curve lib self =
     (case probas_reval self of
        None \<Rightarrow> Inl AttributeError
      | Some probas \<Rightarrow> draw_probas lib ''lift_curve'' (vals (y_true self)) probas)"

definition plot_cumulative_gain :: "library \<Rightarrow> metrics_report \<Rightarrow> error + string" where
  "plot_cumulative_gain lib self =
     (case probas_reval self of
        None \<Rightarrow> Inl AttributeError
      | Some probas \<Rightarrow> draw_probas lib ''cumulative_gain'' (vals (y_true self)) probas)"

definition plot_ks_statistic :: "library \<Rightarrow> metrics_report \<Rightarrow> error + string" where
  "plot_ks_statistic lib self =
     (case probas_reval self of
        None \<Rightarrow> Inl AttributeError
      | Some probas \<Rightarrow> draw_probas lib ''ks_statistic'' (vals (y_true self)) probas)"

definition plot_residual_plot :: "library \<Rightarrow> metrics_report \<Rightarrow> error + string" where
  "plot_residual_plot lib self =
     draw lib ''residual_plot'' (vals (y_true self)) (vals (y_pred self))"

definition plot_predicted_vs_actual :: "library \<Rightarrow> metrics_report \<Rightarrow> error + string" where
  "plot_predicted_vs_actual lib self =
     draw lib ''predicted_vs_actual'' (vals (y_true self)) (vals (y_pred self))"

type_synonym plot_table = "(string \<times> (library \<Rightarrow> metrics_report \<Rightarrow> error + string)) list"

text \<open>The two \<^verbatim>\<open>plots = {...}\<close> dictionaries, in insertion order.\<close>

definition classification_plot_table :: plot_table where
  "classification_plot_table =
     [(''class_distribution'', plot_class_distribution),
      (''confusion_matrix'', plot_confusion_matrix),
      (''precision_recall_curve'', plot_precision_recall_curve),
      (''roc_curve'', plot_roc_curve),
      (''ks_statistic'', plot_ks_statistic),
      (''calibration_curve'', plot_calibration_curve),
      (''cumulative_gain'', plot_cumulative_gain),
      (''lift_curve'', plot_lift_curve)]"

definition regression_plot_table :: plot_table where
  "regression_plot_table =
     [(''residual_plot'', plot_residual_plot),
      (''predicted_vs_actual'', plot_predicted_vs_actual)]"

text \<open>
  The loop both batch methods end with:
  \<^verbatim>\<open>
  for plot_name, plot_func in plots.items():
      plt = plot_func()
      if save:
          plt.savefig(f'{folder}/plots/{plot_name}.png')
      else:
          plt.show()
      plt.close()
  \<close>
\<close>

fun for_each_plot ::
  "library \<Rightarrow> metrics_report \<Rightarrow> bool \<Rightarrow> string \<Rightarrow> plot_table \<Rightarrow> unit io" where
  "for_each_plot lib self save folder [] w = (Inr (), w)"
| "for_each_plot lib self save folder ((plot_name, plot_func) # plots) w =
     (case plot_func lib self of
        Inl e \<Rightarrow> (Inl e, w)
      | Inr fig \<Rightarrow>
          then_io (if save then write_file (folder @ ''/plots/'' @ plot_name @ ''.png'') fig w
                   else plt_show fig w)
            (\<lambda>_. for_each_plot lib self save folder plots))"

text \<open>
  The block both batch methods begin with:
  \<^verbatim>\<open>
  if save:
      if os.path.exists(folder+'/plots'):
          shutil.rmtree(folder+'/plots')
      os.makedirs(folder+'/plots')
  \<close>
\<close>

definition recreate_plots_dir :: "bool \<Rightarrow> string \<Rightarrow> unit io" where
  "recreate_plots_dir save folder w =
     (if save then
        then_io (if os_path_exists (folder @ ''/plots'') w
                 then shutil_rmtree (folder @ ''/plots'') w else (Inr (), w))
          (\<lambda>_. os_makedirs (folder @ ''/plots''))
      else (Inr (), w))"

definition classification_plots :: "library \<Rightarrow> metrics_report \<Rightarrow> bool \<Rightarrow> string \<Rightarrow> unit io" where
  "classification_plots lib self save folder w =
     then_io (recreate_plots_dir save folder w)
       (\<lambda>_. for_each_plot lib self save folder classification_plot_table)"

definition regression_plots :: "library \<Rightarrow> metrics_report \<Rightarrow> bool \<Rightarrow> string \<Rightarrow> unit io" where
  "regression_plots lib self save folder w =
     then_io (recreate_plots_dir save folder w)
       (\<lambda>_. for_each_plot lib self save folder regression_plot_table)"

section \<open>The report\<close>

text \<open>
  \<^verbatim>\<open>sum(self.y_true)\<close> adds the elements one after the other to the integer 0.
  \<^verbatim>\<open>np.min\<close> and \<^verbatim>\<open>np.max\<close> pick an element, and \<^verbatim>\<open>round\<close> leaves an integer as it is.
\<close>

definition builtin_sum :: "library \<Rightarrow> pyval list \<Rightarrow> pyval" where
  "builtin_sum lib xs = foldl (py_add lib) (PyInt 0) xs"

fun rounded_extreme ::
  "library \<Rightarrow> (real \<Rightarrow> real \<Rightarrow> real) \<Rightarrow> (int \<Rightarrow> int \<Rightarrow> int) \<Rightarrow> ndarray \<Rightarrow> pyval" where
  "rounded_extreme lib f g (IntArray xs) = PyInt (foldl g (hd xs) (tl xs))"
| "rounded_extreme lib f g (FloatArray xs) =
     PyFloat (py_round lib (Finite (foldl f (hd xs) (tl xs))) 2)"

text \<open>
  \<^verbatim>\<open>
  def __target_info(self):
      if self.task_type == 'classification':
          target_info = {
              'Count of samples': self.y_true.shape[0],
              'Count True class': sum(self.y_true),
              'Count False class': (len(self.y_true) - sum(self.y_true)),
              'Class balance %': round((sum(self.y_true) / len(self.y_true)) * 100, 1),
          }
      if self.task_type == 'regression':
          target_info = {
              'Count of samples': self.y_true.shape[0],
              'Mean of target': round(np.mean(self.y_true), 2),
              'Std of target': round(np.std(self.y_true), 2),
              'Min of target': round(np.min(self.y_true), 2),
              'Max of target': round(np.max(self.y_true), 2),
          }
      self.target_info = target_info
  \<close>
  On an empty array the division raises in the first branch and \<^verbatim>\<open>np.min\<close> in the
  second; with any other task type the local variable is unbound.
\<close>

definition MetricsReport_target_info :: "library \<Rightarrow> metrics_report \<Rightarrow> error + metrics_report" where
  "MetricsReport_target_info lib self =
     (let y = y_true self; n = length (vals y); total = builtin_sum lib (elems y) in
      if task_type self = ''classification'' then
        if n = 0 then Inl ZeroDivisionError
        else Inr (self\<lparr>target_info :=
               [(''Count of samples'', PyInt (int n)),
                (''Count True class'', total),
                (''Count False class'', py_sub lib (PyInt (int n)) total),
                (''Class balance %'',
                   PyFloat (py_round lib
                     (np_multiply lib (as_float lib (py_div lib total (PyInt (int n)))) (np_float64 lib 100)) 1))]\<rparr>)
      else if task_type self = ''regression'' then
        if n = 0 then Inl ValueError
        else Inr (self\<lparr>target_info :=
               [(''Count of samples'', PyInt (int n)),
                (''Mean of target'', PyFloat (py_round lib (np_mean lib (map (as_float lib) (elems y))) 2)),
                (''Std of target'', PyFloat (py_round lib (np_std lib (map (as_float lib) (elems y))) 2)),
                (''Min of target'', rounded_extreme lib min min y),
                (''Max of target'', rounded_extreme lib max max y)]\<rparr>)
      else Inl UnboundLocalError)"

text \<open>Python writes an integer in decimal digits.\<close>

fun str_nat :: "nat \<Rightarrow> string" where
  "str_nat n = (if n < 10 then [char_of (48 + n)] else str_nat (n div 10) @ [char_of (48 + n mod 10)])"

definition str_int :: "int \<Rightarrow> string" where
  "str_int i = (if i < 0 then ''-'' @ str_nat (nat (- i)) else str_nat (nat i))"

text \<open>
  \<^verbatim>\<open>
  rows = ''
  for name, value in data.items():
      rows += f'<tr><td>{name}</td><td>{value}</td></tr>\n' if isinstance(value, float) else f'<tr><td>{name}</td><td>{int(value)}</td></tr>\n'
  return rows
  \<close>
\<close>

fun str_value :: "library \<Rightarrow> pyval \<Rightarrow> string" where
  "str_value lib (PyFloat (Finite x)) = str_float lib x"
| "str_value lib (PyFloat PosInf) = ''inf''"
| "str_value lib (PyFloat NegInf) = ''-inf''"
| "str_value lib (PyFloat NaN) = ''nan''"
| "str_value lib (PyInt i) = str_int i"

definition MetricsReport_generate_html_rows :: "library \<Rightarrow> (string \<times> pyval) list \<Rightarrow> string" where
  "MetricsReport_generate_html_rows lib data =
     concat (map (\<lambda>(name, v). ''<tr><td>'' @ name @ ''</td><td>'' @ str_value lib v @ ''</td></tr>'' @ nl)
               data)"

text \<open>
  \<^verbatim>\<open>
  images = ''
  directory = f'{folder}/plots/'
  png_files = [file for file in os.listdir(directory) if file.endswith('.png')]
  for name in png_files:
      images += f'<img src="./plots/{name}"></br>\n'
  return images
  \<close>
\<close>

definition dq :: string where
  "dq = [CHR 0x22]"

definition MetricsReport_add_plot_images_to_report :: "string \<Rightarrow> world \<Rightarrow> error + string" where
  "MetricsReport_add_plot_images_to_report folder w =
     bind_res (os_listdir (folder @ ''/plots/'') w) (\<lambda>listing.
       Inr (concat (map (\<lambda>name. ''<img src='' @ dq @ ''./plots/'' @ name @ dq @ ''></br>'' @ nl)
                      (filter (suffix ''.png'') listing))))"

text \<open>
  \<^verbatim>\<open>_generate_html_report\<close> fills the six holes of the template from left to right; only
  the last one, the directory listing, can raise.
\<close>

definition generate_html_report ::
  "library \<Rightarrow> metrics_report \<Rightarrow> string \<Rightarrow> bool \<Rightarrow> world \<Rightarrow> error + string" where
  "generate_html_report lib self folder add_css w =
     (let css = (if add_css then css_text else []) in
      bind_res (MetricsReport_add_plot_images_to_report folder w) (\<lambda>images.
        Inr (html_part1 @ css @
             html_part2 @ task_type self @
             html_part3 @ MetricsReport_generate_html_rows lib (target_info self) @
             html_part4 @ str_float lib (threshold self) @
             html_part5 @ MetricsReport_generate_html_rows lib (metrics self) @
             html_part6 @ images @
             html_part7)))"

text \<open>
  \<^verbatim>\<open>
  def save_report(self, folder='report_metrics', name='report_metrics'):
      if folder != '.':
          if os.path.exists(folder):
              shutil.rmtree(folder)
          os.makedirs(folder)
      self.__target_info()
      if self.task_type == 'classification':
          self._classification_plots(save=True, folder=folder)
      elif self.task_type == 'regression':
          self._regression_plots(save=True, folder=folder)
      html = self._generate_html_report(folder, add_css=True)
      with open(f'{folder}/{name}.html', 'w') as f:
          f.write(html)
      md = markdownify(self._generate_html_report(folder, add_css=False), heading_style="ATX")
      with open(f'{folder}/{name}.md', 'w') as f:
          f.write(md)
      print(f'Report saved in folder: {folder}')
  \<close>
  The method changes the object (its \<open>target_info\<close>) and the world; both are returned,
  also when it raises half way.  Its three blocks are named: \<open>recreate_folder\<close> is the
  \<^verbatim>\<open>if folder != '.'\<close> block, \<open>save_plots\<close> the dispatch on the task type, and
  \<open>write_reports\<close> everything from the first \<^verbatim>\<open>_generate_html_report\<close> on.
\<close>

definition recreate_folder :: "string \<Rightarrow> unit io" where
  "recreate_folder folder w =
     (if folder \<noteq> ''.'' then
        then_io (if os_path_exists folder w then shutil_rmtree folder w else (Inr (), w))
          (\<lambda>_. os_makedirs folder)
      else (Inr (), w))"

definition save_plots :: "library \<Rightarrow> metrics_report \<Rightarrow> string \<Rightarrow> unit io" where
  "save_plots lib self folder w =
     (if task_type self = ''classification'' then classification_plots lib self True folder w
      else if task_type self = ''regression'' then regression_plots lib self True folder w
      else (Inr (), w))"

definition write_reports :: "library \<Rightarrow> metrics_report \<Rightarrow> string \<Rightarrow> string \<Rightarrow> unit io" where
  "write_reports lib self folder name w =
     (case generate_html_report lib self folder True w of
        Inl e \<Rightarrow> (Inl e, w)
      | Inr html \<Rightarrow>
          then_io (write_file (folder @ ''/'' @ name @ ''.html'') html w) (\<lambda>_ w1.
            case bind_res (generate_html_report lib self folder False w1) (markdownify lib) of
              Inl e \<Rightarrow> (Inl e, w1)
            | Inr md \<Rightarrow>
                then_io (write_file (folder @ ''/'' @ name @ ''.md'') md w1) (\<lambda>_ w2.
                  (Inr (), print (''Report saved in folder: '' @ folder) w2))))"

definition save_report ::
  "library \<Rightarrow> metrics_report \<Rightarrow> string \<Rightarrow> string \<Rightarrow> world \<Rightarrow> (error + unit) \<times> metrics_report \<times> world" where
  "save_report lib self folder name w =
     (case recreate_folder folder w of
        (Inl e, w1) \<Rightarrow> (Inl e, self, w1)
      | (Inr _, w1) \<Rightarrow>
          (case MetricsReport_target_info lib self of
             Inl e \<Rightarrow> (Inl e, self, w1)
           | Inr self1 \<Rightarrow>
               (case then_io (save_plots lib self1 folder w1)
                       (\<lambda>_. write_reports lib self1 folder name) of
                  (res, w2) \<Rightarrow> (res, self1, w2))))"

text \<open>\<^verbatim>\<open>print(pd.DataFrame(self.metrics, index=['score']).T)\<close>\<close>

definition print_metrics :: "library \<Rightarrow> metrics_report \<Rightarrow> unit io" where
  "print_metrics lib self w = (Inr (), print (dataframe_repr lib (metrics self)) w)"

text \<open>
  \<^verbatim>\<open>
  def plot_metrics(self):
      if self.task_type == 'classification':
          self._classification_plots(save=False,)
      elif self.task_type == 'regression':
          self._regression_plots(save=False,)
  \<close>
  The folder is the default, \<^verbatim>\<open>'.'\<close>.
\<close>

definition plot_metrics :: "library \<Rightarrow> metrics_report \<Rightarrow> unit io" where
  "plot_metrics lib self w =
     (if task_type self = ''classification'' then classification_plots lib self False ''.'' w
      else if task_type self = ''regression'' then regression_plots lib self False ''.'' w
      else (Inr (), w))"

text \<open>
  \<^verbatim>\<open>print_report\<close>: for a classification report the threshold, scikit-learn's text
  report, the metrics table, the lift and the plots; for a regression report the
  metrics table and the plots.
\<close>

definition print_report :: "library \<Rightarrow> metrics_report \<Rightarrow> unit io" where
  "print_report lib self w =
     (if task_type self = ''classification'' then
        let w1 = print (''threshold='' @ str_float lib (threshold self)) w;
            w2 = print (nl @ ''                  |  Classification Report | '' @ nl) w1
        in (case y_pred_binary self of
              None \<Rightarrow> (Inl AttributeError, w2)
            | Some ypb \<Rightarrow>
                (case classification_report lib (vals (y_true self)) ypb of
                   Inl e \<Rightarrow> (Inl e, w2)
                 | Inr text \<Rightarrow>
                     let w3 = print text w2;
                         w4 = print (nl @ ''                  |  Metrics Report: | '' @ nl) w3
                     in then_io (print_metrics lib self w4) (\<lambda>_ w5.
                          let w6 = print (nl @ ''                  |  Lift: | '' @ nl) w5
                          in (case lift lib (vals (y_true self)) (vals (y_pred self)) of
                                Inl e \<Rightarrow> (Inl e, w6)
                              | Inr l \<Rightarrow>
                                  let w7 = print l w6;
                                      w8 = print (nl @ ''                  |  Plots: | '' @ nl) w7
                                  in plot_metrics lib self w8))))
      else if task_type self = ''regression'' then
        let w1 = print (nl @ ''                  |  Metrics Report: | '' @ nl) w
        in then_io (print_metrics lib self w1) (\<lambda>_ w2.
             let w3 = print (nl @ ''                  |  Plots: | '' @ nl) w2
             in plot_metrics lib self w3)
      else (Inr (), w))"

section \<open>Using a report\<close>

text \<open>
  What a caller can do with a report once it is built: save it, print the metrics, show
  the plots, print the report, or call one of the plot methods.  A call returns the
  object and the world as it leaves them; an exception ends the call and leaves them as
  they were at that moment.  A plot method only returns its figure.
\<close>

datatype operation =
    SaveReport string string
  | PrintMetrics
  | PlotMetrics
  | PrintReport
  | PlotMethod string

fun call :: "library \<Rightarrow> operation \<Rightarrow> metrics_report \<times> world \<Rightarrow> metrics_report \<times> world" where
  "call lib (SaveReport folder name) (self, w) = snd (save_report lib self folder name w)"
| "call lib PrintMetrics (self, w) = (self, snd (print_metrics lib self w))"
| "call lib PlotMetrics (self, w) = (self, snd (plot_metrics lib self w))"
| "call lib PrintReport (self, w) = (self, snd (print_report lib self w))"
| "call lib (PlotMethod key) (self, w) = (self, w)"

definition calls :: "library \<Rightarrow> operation list \<Rightarrow> metrics_report \<times> world \<Rightarrow> metrics_report \<times> world" where
  "calls lib ops s = foldl (\<lambda>s op. call lib op s) s ops"

text \<open>
  What a successful \<^verbatim>\<open>save_report(folder, name)\<close> puts below \<open>folder\<close>: the plots
  directory, one image for every key of the plot dictionary of the task type, and the
  two report files.
\<close>

definition plot_table_of :: "metrics_report \<Rightarrow> plot_table" where
  "plot_table_of self =
     (if task_type self = ''classification'' then classification_plot_table
      else if task_type self = ''regression'' then regression_plot_table
      else [])"

definition is_product :: "metrics_report \<Rightarrow> world \<Rightarrow> string \<Rightarrow> string \<Rightarrow> path \<Rightarrow> bool" where
  "is_product self w folder name q \<longleftrightarrow>
     q = abspath w folder @ [''plots''] \<or>
     q \<in> set (map (\<lambda>(key, plot_func). abspath w folder @ [''plots'', key @ ''.png''])
                (plot_table_of self)) \<or>
     q = abspath w (folder @ ''/'' @ name @ ''.html'') \<or>
     q = abspath w (folder @ ''/'' @ name @ ''.md'')"

text \<open>In a file system every node but the root lies in a directory.\<close>

definition well_formed :: "world \<Rightarrow> bool" where
  "well_formed w \<longleftrightarrow>
     list_all (\<lambda>(k, n). k \<noteq> [] \<and> node_at w (butlast k) = Some Dir) (files w)"

section \<open>A library instance for concrete runs\<close>

text \<open>
  To run the methods on concrete inputs the collaborators need values.  The arithmetic
  of this instance is exact: a finite result is the mathematical one, division by zero
  gives an infinity or NaN, and \<^verbatim>\<open>round\<close> scales by a power of ten, rounds to the nearest
  integer with ties going to the even one, and scales back.
\<close>

definition rint :: "real \<Rightarrow> int" where
  "rint x =
     (let f = \<lfloor>x\<rfloor>; d = x - real_of_int f
      in if d < 1 / 2 then f else if 1 / 2 < d then f + 1 else if even f then f else f + 1)"

fun exact_round :: "float64 \<Rightarrow> nat \<Rightarrow> float64" where
  "exact_round (Finite x) ndigits = Finite (real_of_int (rint (x * 10 ^ ndigits)) / 10 ^ ndigits)"
| "exact_round f ndigits = f"

fun exact_add :: "float64 \<Rightarrow> float64 \<Rightarrow> float64" where
  "exact_add (Finite a) (Finite b) = Finite (a + b)"
| "exact_add NaN _ = NaN"
| "exact_add _ NaN = NaN"
| "exact_add PosInf NegInf = NaN"
| "exact_add NegInf PosInf = NaN"
| "exact_add PosInf _ = PosInf"
| "exact_add NegInf _ = NegInf"
| "exact_add _ PosInf = PosInf"
| "exact_add _ NegInf = NegInf"

fun exact_neg :: "float64 \<Rightarrow> float64" where
  "exact_neg (Finite a) = Finite (- a)"
| "exact_neg PosInf = NegInf"
| "exact_neg NegInf = PosInf"
| "exact_neg NaN = NaN"

fun exact_abs :: "float64 \<Rightarrow> float64" where
  "exact_abs (Finite a) = Finite \<bar>a\<bar>"
| "exact_abs NaN = NaN"
| "exact_abs _ = PosInf"

text \<open>The sign of a value that is not NaN, and the infinity of a sign.\<close>

fun sign_of :: "float64 \<Rightarrow> int" where
  "sign_of (Finite a) = (if a < 0 then - 1 else if a = 0 then 0 else 1)"
| "sign_of PosInf = 1"
| "sign_of NegInf = - 1"
| "sign_of NaN = 0"

definition infinity :: "int \<Rightarrow> float64" where
  "infinity s = (if s < 0 then NegInf else if s = 0 then NaN else PosInf)"

fun exact_mul :: "float64 \<Rightarrow> float64 \<Rightarrow> float64" where
  "exact_mul (Finite a) (Finite b) = Finite (a * b)"
| "exact_mul NaN _ = NaN"
| "exact_mul _ NaN = NaN"
| "exact_mul a b = infinity (sign_of a * sign_of b)"

fun exact_div :: "float64 \<Rightarrow> float64 \<Rightarrow> float64" where
  "exact_div (Finite a) (Finite b) = (if b = 0 then infinity (sign_of (Finite a)) else Finite (a / b))"
| "exact_div NaN _ = NaN"
| "exact_div _ NaN = NaN"
| "exact_div (Finite a) _ = Finite 0"
| "exact_div a (Finite b) = infinity (sign_of a * (if b < 0 then - 1 else 1))"
| "exact_div _ _ = NaN"

definition exact_mean :: "float64 list \<Rightarrow> float64" where
  "exact_mean xs = exact_div (foldl exact_add (Finite 0) xs) (Finite (real (length xs)))"

text \<open>
  Each metric of the instance validates its arguments the way scikit-learn does (equal,
  non-zero lengths; two classes for the AUC; targets above \<open>-1\<close> for the log error).
  Where the metric is a line of rational arithmetic it is computed; the remaining
  classification scores answer with the numbers the repository's test expects on its
  fixture, and the log error and the standard deviation with fixed numbers.
\<close>

definition checked :: "(real list \<Rightarrow> 'b list \<Rightarrow> real) \<Rightarrow> real list \<Rightarrow> 'b list \<Rightarrow> error + float64" where
  "checked f yt yp =
     (if length yt = length yp \<and> yt \<noteq> [] then Inr (Finite (f yt yp)) else Inl ValueError)"

definition mean_of :: "real list \<Rightarrow> real" where
  "mean_of xs = sum_list xs / real (length xs)"

definition auc_by_pairs :: "real list \<Rightarrow> real list \<Rightarrow> real" where
  "auc_by_pairs yt yp =
     (let top = last (np_unique yt);
          pos = map snd (filter (\<lambda>(t, p). t = top) (zip yt yp));
          neg = map snd (filter (\<lambda>(t, p). t \<noteq> top) (zip yt yp))
      in sum_list (map (\<lambda>a. sum_list (map (\<lambda>b. if b < a then 1 else if a = b then 1 / 2 else 0) neg)) pos)
         / real (length pos * length neg))"

definition squared_error :: "real list \<Rightarrow> real list \<Rightarrow> real" where
  "squared_error yt yp = mean_of (map (\<lambda>(t, p). (t - p)\<^sup>2) (zip yt yp))"

definition variance :: "real list \<Rightarrow> real" where
  "variance xs = mean_of (map (\<lambda>x. (x - mean_of xs)\<^sup>2) xs)"

definition one_minus_ratio :: "real \<Rightarrow> real \<Rightarrow> real" where
  "one_minus_ratio num den = (if den = 0 then (if num = 0 then 1 else 0) else 1 - num / den)"

definition fixture_library :: library where
  "fixture_library =
     \<lparr>roc_auc_score = (\<lambda>yt yp. if length (np_unique yt) \<noteq> 2 then Inl ValueError
                                else checked auc_by_pairs yt yp),
      log_loss = checked (\<lambda>yt yp. 0.5807),
      average_precision_score = checked (\<lambda>yt yp. 0.6635),
      accuracy_score = checked (\<lambda>yt yb.
         real (length (filter (\<lambda>(t, b). t = real_of_int b) (zip yt yb))) / real (length yt)),
      precision_score_weighted = checked (\<lambda>yt yb. 0.7784),
      recall_score_weighted = checked (\<lambda>yt yb. 0.7692),
      f1_score_weighted = checked (\<lambda>yt yb. 0.7692),
      matthews_corrcoef = checked (\<lambda>yt yb. 0.5476),
      mean_squared_error = checked squared_error,
      mean_squared_log_error = (\<lambda>yt yp.
         if list_ex (\<lambda>v. v \<le> - 1) (yt @ yp) then Inl ValueError
         else checked (\<lambda>yt yp. 0.0014) yt yp),
      mean_absolute_error = checked (\<lambda>yt yp. mean_of (map (\<lambda>(t, p). \<bar>t - p\<bar>) (zip yt yp))),
      r2_score = checked (\<lambda>yt yp.
         one_minus_ratio (squared_error yt yp) (variance yt)),
      explained_variance_score = checked (\<lambda>yt yp.
         one_minus_ratio (variance (map (\<lambda>(t, p). t - p) (zip yt yp))) (variance yt)),
      max_error = checked (\<lambda>yt yp. foldr max (map (\<lambda>(t, p). \<bar>t - p\<bar>) (zip yt yp)) 0),
      classification_report = (\<lambda>yt yb. Inr ''classification report''),
      lift = (\<lambda>yt yp. Inr ''lift''),
      draw = (\<lambda>key yt yp. Inr (''figure of '' @ key)),
      draw_probas = (\<lambda>key yt probas. Inr (''figure of '' @ key)),
      markdownify = (\<lambda>html. Inr html),
      np_float64 = (\<lambda>i. Finite (real_of_int i)),
      np_add = exact_add,
      np_subtract = (\<lambda>a b. exact_add a (exact_neg b)),
      np_multiply = exact_mul,
      np_true_divide = exact_div,
      np_absolute = exact_abs,
      np_mean = exact_mean,
      np_std = (\<lambda>xs. Finite 1.4142),
      py_round = exact_round,
      str_float = (\<lambda>x. ''float''),
      dataframe_repr = (\<lambda>d. ''table'')\<rparr>"

definition fixture_y_true :: ndarray where
  "fixture_y_true = IntArray [0, 1, 1, 0, 1, 0, 0, 1, 0, 1, 0, 1, 0]"

definition fixture_y_pred :: ndarray where
  "fixture_y_pred =
     FloatArray [0.2, 0.8, 0.9, 0.1, 0.6, 0.3, 0.4, 0.7, 0.2, 0.9, 0.8, 0.4, 0.9]"

definition regression_y_true :: ndarray where
  "regression_y_true = IntArray [1, 2, 3, 4, 5]"

definition regression_y_pred :: ndarray where
  "regression_y_pred = FloatArray [1.1, 2.3, 3.4, 4.2, 4.8]"

definition empty_world :: world where
  "empty_world = \<lparr>files = [], cwd = [], console = [], shown = []\<rparr>"

text \<open>Regression inputs with a negative prediction, and with a negative true value.\<close>

definition negative_y_pred :: ndarray where
  "negative_y_pred = FloatArray [- 1.5, 2.3, 3.4, 4.2, 4.8]"

text \<open>
  Regression data on which every step of the percentage error is exact in binary
  floating point: the values are small multiples of \<open>1/2\<close>, the quotients are 0, 1/2 or
  2 in absolute value, and the mean of four of them times 100 has at most one decimal
  place.  One pair has a negative true value.
\<close>

definition signed_y_true :: ndarray where
  "signed_y_true = FloatArray [- 0.5, 1, 2, 4]"

definition signed_y_pred :: ndarray where
  "signed_y_pred = FloatArray [0.5, 1, 2, 4]"

definition dyadic_y_true :: ndarray where
  "dyadic_y_true = IntArray [1, 2, 4, 8]"

definition dyadic_y_pred :: ndarray where
  "dyadic_y_pred = FloatArray [1.5, 2, 4, 8]"

text \<open>The classification report the constructor builds from the test fixture.\<close>

definition fixture_report :: metrics_report where
  "fixture_report =
     projr (fst (MetricsReport fixture_library fixture_y_true fixture_y_pred 0.5 empty_world))"


text \<open>A run of every kind of call.\<close>

definition fixture_session :: "operation list" where
  "fixture_session =
     [PrintMetrics, SaveReport ''out'' ''report'', PlotMetrics, PlotMethod ''roc_curve'',
      PrintReport, SaveReport ''.'' ''again'']"

text \<open>A world in which the report folder exists and holds a file of an earlier run.\<close>

definition stale_world :: world where
  "stale_world =
     \<lparr>files = [([''out''], Dir), ([''out'', ''old.txt''], File ''stale'')],
      cwd = [], console = [], shown = []\<rparr>"

section \<open>Properties of the task classifier\<close>

lemma distinct_remdups_adj_sorted: "sorted xs \<Longrightarrow> distinct (remdups_adj xs)"
proof (induction xs rule: remdups_adj.induct)
  case (3 x y xs)
  show ?case
  proof (cases "x = y")
    case True
    with 3 show ?thesis by simp
  next
    case False
    from "3.prems" have "x \<le> y" and "\<forall>z\<in>set xs. y \<le> z" by auto
    with False have "x \<notin> set (y # xs)" by auto
    moreover from 3 False have "distinct (remdups_adj (y # xs))" by simp
    ultimately show ?thesis using False by simp
  qed
qed simp_all

lemma distinct_np_unique: "distinct (np_unique xs)"
  unfolding np_unique_def by (rule distinct_remdups_adj_sorted) simp

lemma set_np_unique: "set (np_unique xs) = set xs"
  by (simp add: np_unique_def)

lemma length_np_unique: "length (np_unique xs) = card (set xs)"
proof -
  have "card (set (np_unique xs)) = length (np_unique xs)"
    using distinct_np_unique by (rule distinct_card)
  then show ?thesis by (simp add: set_np_unique)
qed

text \<open>
  C1.  The task classifier answers \<^verbatim>\<open>"regression"\<close> exactly when \<^verbatim>\<open>y_true\<close> holds more
  than two distinct values and \<^verbatim>\<open>"classification"\<close> exactly when it holds at most two;
  a sequence with a single distinct value is a classification task.  The statement
  holds for every input, the non-empty ones in particular.
\<close>

theorem determine_task_type_by_cardinality:
  "(determine_task_type y = ''regression'' \<longleftrightarrow> 2 < card (set (vals y))) \<and>
   (determine_task_type y = ''classification'' \<longleftrightarrow> card (set (vals y)) \<le> 2) \<and>
   (vals y \<noteq> [] \<and> card (set (vals y)) = 1 \<longrightarrow>
      determine_task_type y = ''classification'')"
  by (auto simp: determine_task_type_def length_np_unique)

theorem determine_task_type_by_cardinality_witness:
  "determine_task_type (IntArray [1, 2, 3, 4, 5]) = ''regression'' \<and>
   determine_task_type (IntArray [0, 1, 1, 0, 1, 0, 0, 1, 0, 1, 0, 1, 0]) = ''classification'' \<and>
   vals (IntArray [7, 7, 7]) \<noteq> [] \<and> card (set (vals (IntArray [7, 7, 7]))) = 1 \<and>
   determine_task_type (IntArray [7, 7, 7]) = ''classification''"
  using determine_task_type_by_cardinality [of "IntArray [1, 2, 3, 4, 5]"]
        determine_task_type_by_cardinality [of "IntArray [0, 1, 1, 0, 1, 0, 0, 1, 0, 1, 0, 1, 0]"]
        determine_task_type_by_cardinality [of "IntArray [7, 7, 7]"]
  by (simp add: card_insert_if)

text \<open>
  C9.  On the empty sequence the classifier answers \<^verbatim>\<open>"classification"\<close>: there are no
  distinct values, and zero is not greater than two.  Nothing is rejected at this step.
\<close>

theorem determine_task_type_empty:
  "determine_task_type (IntArray []) = ''classification'' \<and>
   determine_task_type (FloatArray []) = ''classification''"
  by (simp add: determine_task_type_def np_unique_def)

section \<open>The constructor, read backwards\<close>

lemma bind_res_Inr: "bind_res m f = Inr y \<longleftrightarrow> (\<exists>x. m = Inr x \<and> f x = Inr y)"
  by (cases m) (simp_all add: bind_res_def)

lemma generate_classification_metrics_Inr:
  assumes "generate_classification_metrics lib self = Inr m"
  obtains ypb cm tn fp fn tp auc ll ap acc prec rec f1 mcc where
    "y_pred_binary self = Some ypb"
    "confusion_matrix (vals (y_true self)) ypb = Inr cm"
    "unpack4 (ravel cm) = Inr (tn, fp, fn, tp)"
    "roc_auc_score lib (vals (y_true self)) (vals (y_pred self)) = Inr auc"
    "log_loss lib (vals (y_true self)) (vals (y_pred self)) = Inr ll"
    "average_precision_score lib (vals (y_true self)) (vals (y_pred self)) = Inr ap"
    "accuracy_score lib (vals (y_true self)) ypb = Inr acc"
    "precision_score_weighted lib (vals (y_true self)) ypb = Inr prec"
    "recall_score_weighted lib (vals (y_true self)) ypb = Inr rec"
    "f1_score_weighted lib (vals (y_true self)) ypb = Inr f1"
    "matthews_corrcoef lib (vals (y_true self)) ypb = Inr mcc"
    "m = [(''AUC'', PyFloat (py_round lib auc 4)),
          (''Log Loss'', PyFloat (py_round lib ll 4)),
          (''Average_Precision'', PyFloat (py_round lib ap 4)),
          (''Accuracy'', PyFloat (py_round lib acc 4)),
          (''Precision'', PyFloat (py_round lib prec 4)),
          (''Recall'', PyFloat (py_round lib rec 4)),
          (''F1 Score'', PyFloat (py_round lib f1 4)),
          (''MCC'', PyFloat (py_round lib mcc 4)),
          (''TN'', PyInt tn), (''FP'', PyInt fp), (''FN'', PyInt fn), (''TP'', PyInt tp)]"
  using assms unfolding generate_classification_metrics_def Let_def
  by (auto simp: bind_res_Inr split: option.splits prod.splits)

lemma generate_regression_metrics_Inr:
  assumes "generate_regression_metrics lib self = Inr m"
  obtains ypn mse msle mae r2 evs me mape where
    "y_pred_nonnegative self = Some ypn"
    "mean_squared_error lib (vals (y_true self)) (vals (y_pred self)) = Inr mse"
    "mean_squared_log_error lib (vals (y_true self)) (vals ypn) = Inr msle"
    "mean_absolute_error lib (vals (y_true self)) (vals (y_pred self)) = Inr mae"
    "r2_score lib (vals (y_true self)) (vals (y_pred self)) = Inr r2"
    "explained_variance_score lib (vals (y_true self)) (vals (y_pred self)) = Inr evs"
    "max_error lib (vals (y_true self)) (vals (y_pred self)) = Inr me"
    "mean_absolute_percentage_error lib (elems (y_true self)) (elems (y_pred self)) = Inr mape"
    "m = [(''Mean Squared Error'', PyFloat (py_round lib mse 4)),
          (''Mean Squared Log Error'', PyFloat (py_round lib msle 4)),
          (''Mean Absolute Error'', PyFloat (py_round lib mae 4)),
          (''R^2'', PyFloat (py_round lib r2 4)),
          (''Explained Variance Score'', PyFloat (py_round lib evs 4)),
          (''Max Error'', PyFloat (py_round lib me 4)),
          (''Mean Absolute Percentage Error'', mape)]"
  using assms unfolding generate_regression_metrics_def Let_def
  by (auto simp: bind_res_Inr split: option.splits prod.splits)

lemma MetricsReport_Inr:
  assumes "fst (MetricsReport lib yt yp th w) = Inr r"
  shows "task_type r = determine_task_type yt \<and> y_true r = yt \<and> y_pred r = yp \<and>
         threshold r = th \<and> target_info r = [] \<and>
         (if task_type r = ''classification'' then
            y_pred_binary r = Some (map (\<lambda>p. if p > th then 1 else 0) (vals yp)) \<and>
            probas_reval r = Some (map (\<lambda>p. (py_sub lib (PyInt 1) p, p)) (elems yp)) \<and>
            y_pred_nonnegative r = None \<and>
            generate_classification_metrics lib r = Inr (metrics r)
          else
            y_pred_binary r = None \<and> probas_reval r = None \<and>
            y_pred_nonnegative r = Some (np_maximum0 yp) \<and>
            generate_regression_metrics lib r = Inr (metrics r))"
  using assms unfolding MetricsReport_def Let_def
  by (auto split: if_splits sum.splits
      simp: generate_classification_metrics_def generate_regression_metrics_def)

text \<open>
  C2.  A report that was constructed has one of the two task types, and its metrics
  mapping has exactly the twelve classification keys, or exactly the seven regression
  keys, each once.
\<close>

theorem metrics_keys:
  assumes "fst (MetricsReport lib yt yp th w) = Inr r"
  shows "(task_type r = ''classification'' \<or> task_type r = ''regression'') \<and>
         (task_type r = ''classification'' \<longrightarrow>
            map fst (metrics r) =
              [''AUC'', ''Log Loss'', ''Average_Precision'', ''Accuracy'', ''Precision'',
               ''Recall'', ''F1 Score'', ''MCC'', ''TN'', ''FP'', ''FN'', ''TP'']) \<and>
         (task_type r = ''regression'' \<longrightarrow>
            map fst (metrics r) =
              [''Mean Squared Error'', ''Mean Squared Log Error'', ''Mean Absolute Error'',
               ''R^2'', ''Explained Variance Score'', ''Max Error'',
               ''Mean Absolute Percentage Error'']) \<and>
         distinct (map fst (metrics r))"
proof (cases "task_type r = ''classification''")
  case True
  with MetricsReport_Inr [OF assms]
  have "generate_classification_metrics lib r = Inr (metrics r)" by simp
  then show ?thesis using True
    by (elim generate_classification_metrics_Inr) simp
next
  case False
  with MetricsReport_Inr [OF assms]
  have g: "generate_regression_metrics lib r = Inr (metrics r)"
    and t: "task_type r = ''regression''"
    by (simp_all add: determine_task_type_def split: if_splits)
  from g show ?thesis using t
    by (elim generate_regression_metrics_Inr) simp
qed

theorem metrics_keys_witness:
  "\<exists>r c. fst (MetricsReport fixture_library regression_y_true regression_y_pred 0.5 empty_world) = Inr r \<and>
     task_type r = ''regression'' \<and> length (metrics r) = 7 \<and>
     fst (MetricsReport fixture_library fixture_y_true fixture_y_pred 0.5 empty_world) = Inr c \<and>
     task_type c = ''classification'' \<and> length (metrics c) = 12"
proof -
  have "\<not> isl (fst (MetricsReport fixture_library regression_y_true regression_y_pred 0.5 empty_world))"
    by code_simp
  moreover have "\<not> isl (fst (MetricsReport fixture_library fixture_y_true fixture_y_pred 0.5 empty_world))"
    by code_simp
  ultimately obtain r c where
    r: "fst (MetricsReport fixture_library regression_y_true regression_y_pred 0.5 empty_world) = Inr r"
    and c: "fst (MetricsReport fixture_library fixture_y_true fixture_y_pred 0.5 empty_world) = Inr c"
    by (auto simp: isl_def) (metis sum.exhaust)
  have tr: "task_type r = ''regression''"
    using MetricsReport_Inr [OF r] by (simp add: regression_y_true_def determine_task_type_def np_unique_def)
  have tc: "task_type c = ''classification''"
    using MetricsReport_Inr [OF c] by (simp add: fixture_y_true_def determine_task_type_def np_unique_def)
  from metrics_keys [OF r] tr have "length (map fst (metrics r)) = 7" by simp
  moreover from metrics_keys [OF c] tc have "length (map fst (metrics c)) = 12" by simp
  ultimately show ?thesis using r c tr tc by auto
qed

section \<open>Properties of the constructor\<close>

lemma vals_np_maximum0: "vals (np_maximum0 a) = map (\<lambda>p. if p < 0 then 0 else p) (vals a)"
  by (cases a) (auto simp: max_def)

text \<open>
  C3.  On a classification report built with threshold \<open>th\<close>, the binary prediction
  at every index is 1 if the score there is greater than \<open>th\<close> and 0 otherwise; the
  inequality is strict, so a score equal to the threshold gives 0.
\<close>

theorem binarization_strict:
  assumes "fst (MetricsReport lib yt yp th w) = Inr r" and "task_type r = ''classification''"
  shows "\<exists>b. y_pred_binary r = Some b \<and> length b = length (vals yp) \<and>
             (\<forall>i<length b. b ! i = (if th < vals yp ! i then 1 else 0)) \<and>
             (\<forall>i<length b. vals yp ! i = th \<longrightarrow> b ! i = 0)"
  using MetricsReport_Inr [OF assms(1)] assms(2) by simp

theorem binarization_strict_witness:
  "\<exists>r b. fst (MetricsReport fixture_library fixture_y_true fixture_y_pred 0.6 empty_world) = Inr r \<and>
     task_type r = ''classification'' \<and> y_pred_binary r = Some b \<and>
     vals fixture_y_pred ! 4 = 0.6 \<and> b ! 4 = 0 \<and> vals fixture_y_pred ! 7 = 0.7 \<and> b ! 7 = 1"
proof -
  have "\<not> isl (fst (MetricsReport fixture_library fixture_y_true fixture_y_pred 0.6 empty_world))"
    by code_simp
  then obtain r where
    r: "fst (MetricsReport fixture_library fixture_y_true fixture_y_pred 0.6 empty_world) = Inr r"
    by (auto simp: isl_def) (metis sum.exhaust)
  have t: "task_type r = ''classification''"
    using MetricsReport_Inr [OF r]
    by (simp add: fixture_y_true_def determine_task_type_def np_unique_def)
  from binarization_strict [OF r t] obtain b where
    b: "y_pred_binary r = Some b" "length b = length (vals fixture_y_pred)"
       "\<forall>i<length b. b ! i = (if 0.6 < vals fixture_y_pred ! i then 1 else 0)"
    by blast
  have "length b = 13" using b(2) by (simp add: fixture_y_pred_def)
  with b(3) have "b ! 4 = (if 0.6 < vals fixture_y_pred ! 4 then 1 else 0)"
    and "b ! 7 = (if 0.6 < vals fixture_y_pred ! 7 then 1 else 0)" by simp_all
  then have "b ! 4 = 0" "b ! 7 = 1" "vals fixture_y_pred ! 4 = 0.6" "vals fixture_y_pred ! 7 = 0.7"
    by (simp_all add: fixture_y_pred_def)
  with r t b(1) show ?thesis by blast
qed

text \<open>
  C7.  On a regression report the Mean Squared Log Error is the library's value on the
  predictions with every negative one replaced by 0, and each of the other six metrics
  is computed from the predictions as given.
\<close>

theorem regression_metric_inputs:
  assumes "fst (MetricsReport lib yt yp th w) = Inr r" and "task_type r = ''regression''"
  shows "\<exists>mse msle mae r2 evs me mape.
     mean_squared_log_error lib (vals yt) (map (\<lambda>p. if p < 0 then 0 else p) (vals yp)) = Inr msle \<and>
     map_of (metrics r) ''Mean Squared Log Error'' = Some (PyFloat (py_round lib msle 4)) \<and>
     mean_squared_error lib (vals yt) (vals yp) = Inr mse \<and>
     map_of (metrics r) ''Mean Squared Error'' = Some (PyFloat (py_round lib mse 4)) \<and>
     mean_absolute_error lib (vals yt) (vals yp) = Inr mae \<and>
     map_of (metrics r) ''Mean Absolute Error'' = Some (PyFloat (py_round lib mae 4)) \<and>
     r2_score lib (vals yt) (vals yp) = Inr r2 \<and>
     map_of (metrics r) ''R^2'' = Some (PyFloat (py_round lib r2 4)) \<and>
     explained_variance_score lib (vals yt) (vals yp) = Inr evs \<and>
     map_of (metrics r) ''Explained Variance Score'' = Some (PyFloat (py_round lib evs 4)) \<and>
     max_error lib (vals yt) (vals yp) = Inr me \<and>
     map_of (metrics r) ''Max Error'' = Some (PyFloat (py_round lib me 4)) \<and>
     mean_absolute_percentage_error lib (elems yt) (elems yp) = Inr mape \<and>
     map_of (metrics r) ''Mean Absolute Percentage Error'' = Some mape"
proof -
  from MetricsReport_Inr [OF assms(1)] assms(2)
  have g: "generate_regression_metrics lib r = Inr (metrics r)"
    and n: "y_pred_nonnegative r = Some (np_maximum0 yp)"
    and y: "y_true r = yt" "y_pred r = yp"
    by simp_all
  from g show ?thesis
  proof (rule generate_regression_metrics_Inr)
    fix ypn mse msle mae r2 evs me mape
    assume "y_pred_nonnegative r = Some ypn"
      and "mean_squared_error lib (vals (y_true r)) (vals (y_pred r)) = Inr mse"
      and "mean_squared_log_error lib (vals (y_true r)) (vals ypn) = Inr msle"
      and "mean_absolute_error lib (vals (y_true r)) (vals (y_pred r)) = Inr mae"
      and "r2_score lib (vals (y_true r)) (vals (y_pred r)) = Inr r2"
      and "explained_variance_score lib (vals (y_true r)) (vals (y_pred r)) = Inr evs"
      and "max_error lib (vals (y_true r)) (vals (y_pred r)) = Inr me"
      and "mean_absolute_percentage_error lib (elems (y_true r)) (elems (y_pred r)) = Inr mape"
      and "metrics r = [(''Mean Squared Error'', PyFloat (py_round lib mse 4)),
          (''Mean Squared Log Error'', PyFloat (py_round lib msle 4)),
          (''Mean Absolute Error'', PyFloat (py_round lib mae 4)),
          (''R^2'', PyFloat (py_round lib r2 4)),
          (''Explained Variance Score'', PyFloat (py_round lib evs 4)),
          (''Max Error'', PyFloat (py_round lib me 4)),
          (''Mean Absolute Percentage Error'', mape)]"
    then show ?thesis using n y by (auto simp: vals_np_maximum0)
  qed
qed

theorem regression_metric_inputs_witness:
  "\<exists>r msle. fst (MetricsReport fixture_library regression_y_true negative_y_pred 0.5 empty_world) = Inr r \<and>
     task_type r = ''regression'' \<and>
     mean_squared_log_error fixture_library (vals regression_y_true) (vals negative_y_pred)
       = Inl ValueError \<and>
     mean_squared_log_error fixture_library (vals regression_y_true) [0, 2.3, 3.4, 4.2, 4.8]
       = Inr msle \<and>
     map_of (metrics r) ''Mean Squared Log Error'' = Some (PyFloat (py_round fixture_library msle 4))"
proof -
  have "\<not> isl (fst (MetricsReport fixture_library regression_y_true negative_y_pred 0.5 empty_world))"
    by code_simp
  then obtain r where
    r: "fst (MetricsReport fixture_library regression_y_true negative_y_pred 0.5 empty_world) = Inr r"
    by (auto simp: isl_def) (metis sum.exhaust)
  have t: "task_type r = ''regression''"
    using MetricsReport_Inr [OF r]
    by (simp add: regression_y_true_def determine_task_type_def np_unique_def)
  have raw: "mean_squared_log_error fixture_library (vals regression_y_true) (vals negative_y_pred)
       = Inl ValueError"
    by (simp add: fixture_library_def regression_y_true_def negative_y_pred_def)
  from regression_metric_inputs [OF r t] obtain msle where
    "mean_squared_log_error fixture_library (vals regression_y_true)
       (map (\<lambda>p. if p < 0 then 0 else p) (vals negative_y_pred)) = Inr msle"
    "map_of (metrics r) ''Mean Squared Log Error'' = Some (PyFloat (py_round fixture_library msle 4))"
    by blast
  then show ?thesis using r t raw by (auto simp: negative_y_pred_def)
qed

text \<open>
  C8, as stated, fails.  With \<open>y_true = [-0.5, 1, 2, 4]\<close> and \<open>y_pred = [0.5, 1, 2, 4]\<close>
  the report is a regression report, no true value is zero, and the stored percentage
  error is \<open>50.0\<close>; the formula \<^verbatim>\<open>mean(|y_true - y_pred| / y_true) * 100\<close> gives \<open>-50.0\<close>.
  Every intermediate value is a binary fraction, so the exact arithmetic of the instance
  is that of the machine here.
\<close>

theorem percentage_error_sign_counterexample:
  "\<not> isl (fst (MetricsReport fixture_library signed_y_true signed_y_pred 0.5 empty_world)) \<and>
   task_type (projr (fst (MetricsReport fixture_library signed_y_true signed_y_pred 0.5 empty_world)))
     = ''regression'' \<and>
   0 \<notin> set (vals signed_y_true) \<and>
   map_of (metrics (projr (fst (MetricsReport fixture_library signed_y_true signed_y_pred 0.5 empty_world))))
     ''Mean Absolute Percentage Error'' = Some (PyFloat (Finite 50)) \<and>
   spec_percentage_error fixture_library (elems signed_y_true) (elems signed_y_pred) = Finite (- 50) \<and>
   map_of (metrics (projr (fst (MetricsReport fixture_library signed_y_true signed_y_pred 0.5 empty_world))))
     ''Mean Absolute Percentage Error''
     \<noteq> Some (PyFloat (spec_percentage_error fixture_library (elems signed_y_true) (elems signed_y_pred)))"
  by code_simp

text \<open>
  C8, amended.  On every regression report the Mean Absolute Percentage Error is
  \<^verbatim>\<open>round(np.mean(np.abs((y_true - y_pred) / y_true)) * 100, 1)\<close>, computed by the library's
  arithmetic on the raw true values and predictions: the absolute value is taken of the
  quotient, not of the difference.  The pairs are those of the two arrays, index by
  index, when the arrays are equally long.  Every other regression metric is a value
  rounded to four decimal places.
\<close>

theorem percentage_error_formula:
  assumes "fst (MetricsReport lib yt yp th w) = Inr r" and "task_type r = ''regression''"
  shows "\<exists>tp. np_broadcast (elems yt) (elems yp) = Inr tp \<and>
     (length (elems yt) = length (elems yp) \<longrightarrow> tp = zip (elems yt) (elems yp)) \<and>
     map_of (metrics r) ''Mean Absolute Percentage Error''
       = Some (PyFloat (py_round lib
           (np_multiply lib
              (np_mean lib
                 (map (\<lambda>(t, p). as_float lib (py_abs lib (py_div lib (py_sub lib t p) t))) tp))
              (np_float64 lib 100)) 1)) \<and>
     (\<forall>k v. (k, v) \<in> set (metrics r) \<and> k \<noteq> ''Mean Absolute Percentage Error'' \<longrightarrow>
        (\<exists>x. v = PyFloat (py_round lib x 4)))"
proof -
  from MetricsReport_Inr [OF assms(1)] assms(2)
  have g: "generate_regression_metrics lib r = Inr (metrics r)"
    and y: "y_true r = yt" "y_pred r = yp"
    by simp_all
  from g obtain mse msle mae r2 evs me mape where
    ma: "mean_absolute_percentage_error lib (elems yt) (elems yp) = Inr mape"
    and m: "metrics r = [(''Mean Squared Error'', PyFloat (py_round lib mse 4)),
          (''Mean Squared Log Error'', PyFloat (py_round lib msle 4)),
          (''Mean Absolute Error'', PyFloat (py_round lib mae 4)),
          (''R^2'', PyFloat (py_round lib r2 4)),
          (''Explained Variance Score'', PyFloat (py_round lib evs 4)),
          (''Max Error'', PyFloat (py_round lib me 4)),
          (''Mean Absolute Percentage Error'', mape)]"
    using y by (elim generate_regression_metrics_Inr) simp
  from ma obtain tp where
    tp: "np_broadcast (elems yt) (elems yp) = Inr tp"
    and v: "mape = PyFloat (py_round lib
           (np_multiply lib
              (np_mean lib
                 (map (\<lambda>(t, p). as_float lib (py_abs lib (py_div lib (py_sub lib t p) t))) tp))
              (np_float64 lib 100)) 1)"
    by (auto simp: mean_absolute_percentage_error_def bind_res_Inr)
  have eqlen: "length (elems yt) = length (elems yp) \<longrightarrow> tp = zip (elems yt) (elems yp)"
    using tp by (auto simp: np_broadcast_def)
  have others: "\<forall>k v. (k, v) \<in> set (metrics r) \<and> k \<noteq> ''Mean Absolute Percentage Error'' \<longrightarrow>
        (\<exists>x. v = PyFloat (py_round lib x 4))"
    using m by auto
  have look: "map_of (metrics r) ''Mean Absolute Percentage Error'' = Some mape"
    using m by simp
  show ?thesis
    using tp eqlen others look v by (intro exI [of _ tp]) simp
qed

theorem percentage_error_formula_witness:
  "\<exists>r. fst (MetricsReport fixture_library dyadic_y_true dyadic_y_pred 0.5 empty_world) = Inr r \<and>
     task_type r = ''regression'' \<and>
     map_of (metrics r) ''Mean Absolute Percentage Error'' = Some (PyFloat (Finite 12.5)) \<and>
     list_all (\<lambda>v. v = PyFloat (Finite 12.5) \<or> v = PyFloat (exact_round (as_float fixture_library v) 4))
       (map snd (metrics r))"
proof -
  have "\<not> isl (fst (MetricsReport fixture_library dyadic_y_true dyadic_y_pred 0.5 empty_world))"
    by code_simp
  then obtain r where
    r: "fst (MetricsReport fixture_library dyadic_y_true dyadic_y_pred 0.5 empty_world) = Inr r"
    by (auto simp: isl_def) (metis sum.exhaust)
  have t: "task_type r = ''regression''"
    using MetricsReport_Inr [OF r]
    by (simp add: dyadic_y_true_def determine_task_type_def np_unique_def)
  have l: "length (elems dyadic_y_true) = length (elems dyadic_y_pred)"
    by (simp add: dyadic_y_true_def dyadic_y_pred_def)
  have s: "py_round fixture_library
           (np_multiply fixture_library
              (np_mean fixture_library
                 (map (\<lambda>(t, p). as_float fixture_library
                    (py_abs fixture_library (py_div fixture_library (py_sub fixture_library t p) t)))
                    (zip (elems dyadic_y_true) (elems dyadic_y_pred))))
              (np_float64 fixture_library 100)) 1 = Finite 12.5"
    by code_simp
  from percentage_error_formula [OF r t] l obtain tp where
    tp: "tp = zip (elems dyadic_y_true) (elems dyadic_y_pred)"
    and v: "map_of (metrics r) ''Mean Absolute Percentage Error''
       = Some (PyFloat (py_round fixture_library
           (np_multiply fixture_library
              (np_mean fixture_library
                 (map (\<lambda>(t, p). as_float fixture_library
                    (py_abs fixture_library (py_div fixture_library (py_sub fixture_library t p) t))) tp))
              (np_float64 fixture_library 100)) 1))"
    and o: "\<forall>k v. (k, v) \<in> set (metrics r) \<and> k \<noteq> ''Mean Absolute Percentage Error'' \<longrightarrow>
        (\<exists>x. v = PyFloat (py_round fixture_library x 4))"
    by blast
  from v s have m: "map_of (metrics r) ''Mean Absolute Percentage Error'' = Some (PyFloat (Finite 12.5))"
    unfolding tp by simp
  have idem: "exact_round (exact_round x 4) 4 = exact_round x 4" for x
    by (cases x) (simp_all add: rint_def)
  have "v = PyFloat (Finite 12.5) \<or> v = PyFloat (exact_round (as_float fixture_library v) 4)"
    if "v \<in> snd ` set (metrics r)" for v
  proof -
    from that obtain k where kv: "(k, v) \<in> set (metrics r)" by auto
    have d: "distinct (map fst (metrics r))"
      using MetricsReport_Inr [OF r] t
      by (auto elim!: generate_regression_metrics_Inr)
    show ?thesis
    proof (cases "k = ''Mean Absolute Percentage Error''")
      case True
      with kv d m show ?thesis by (simp add: map_of_eq_Some_iff)
    next
      case False
      with o kv obtain x where "v = PyFloat (py_round fixture_library x 4)" by blast
      then show ?thesis by (simp add: fixture_library_def idem)
    qed
  qed
  then have "list_all (\<lambda>v. v = PyFloat (Finite 12.5) \<or> v = PyFloat (exact_round (as_float fixture_library v) 4))
       (map snd (metrics r))"
    by (auto simp: list_all_iff)
  with r t m show ?thesis by blast
qed
section \<open>Paths\<close>

lemma split_at_slash_append:
  "split_at_slash cur (a @ CHR ''/'' # b) = split_at_slash cur a @ split_at_slash [] b"
  by (induction a arbitrary: cur) simp_all

lemma split_at_slash_no_slash:
  "CHR ''/'' \<notin> set s \<Longrightarrow> split_at_slash cur s = [cur @ s]"
  by (induction s arbitrary: cur) auto

lemma abspath_slash:
  assumes "folder \<noteq> []"
  shows "abspath w (folder @ CHR ''/'' # rest) = foldl enter (abspath w folder) (split_at_slash [] rest)"
  using assms by (simp add: abspath_def split_at_slash_append)

lemma abspath_plots:
  "abspath w (folder @ ''/plots'') = abspath w (folder @ ''/plots/'')"
proof (cases "folder = []")
  case True
  then show ?thesis by (simp add: abspath_def enter_def)
next
  case False
  then show ?thesis
    using abspath_slash [of folder w "''plots''"] abspath_slash [of folder w "''plots/''"]
    by (simp add: enter_def)
qed

lemma abspath_plots_dir:
  "folder \<noteq> [] \<Longrightarrow> abspath w (folder @ ''/plots'') = abspath w folder @ [''plots'']"
  using abspath_slash [of folder w "''plots''"] by (simp add: enter_def)

section \<open>Showing plots\<close>

lemma then_io_Inr [simp]: "then_io (Inr x, w) f = f x w"
  by (simp add: then_io_def)

lemma then_io_Inl [simp]: "then_io (Inl e, w) f = (Inl e, w)"
  by (simp add: then_io_def)

lemma for_each_plot_show_files:
  "files (snd (for_each_plot lib self False folder plots w)) = files w \<and>
   cwd (snd (for_each_plot lib self False folder plots w)) = cwd w"
proof (induction plots arbitrary: w)
  case Nil
  show ?case by simp
next
  case (Cons a plots)
  obtain plot_name plot_func where a: "a = (plot_name, plot_func)" by (cases a)
  show ?case
  proof (cases "plot_func lib self")
    case (Inl e)
    with a show ?thesis by simp
  next
    case (Inr fig)
    with a Cons [of "w\<lparr>shown := shown w @ [fig]\<rparr>"] show ?thesis
      by (simp add: plt_show_def)
  qed
qed

text \<open>
  C10.  Showing the plots changes no file and no directory: after \<^verbatim>\<open>plot_metrics()\<close> the
  file system is the one before the call, whatever the report and whether or not a
  chart raises.  The same holds for both batch methods when the save flag is off; the
  plots directory is removed and recreated only under \<^verbatim>\<open>if save:\<close>.
\<close>

theorem plot_metrics_leaves_files:
  "files (snd (plot_metrics lib self w)) = files w \<and>
   cwd (snd (plot_metrics lib self w)) = cwd w \<and>
   files (snd (classification_plots lib self False folder w)) = files w \<and>
   files (snd (regression_plots lib self False folder w)) = files w"
  by (simp add: plot_metrics_def classification_plots_def regression_plots_def
      recreate_plots_dir_def for_each_plot_show_files)

section \<open>Plot discovery\<close>





section \<open>Confusion counts\<close>

lemma length_concat_square:
  "length (concat (map (\<lambda>i. map (f i) ls) ks)) = length ks * length ls"
  by (induction ks) simp_all

lemma four_cells:
  assumes "\<forall>x\<in>set ps. (fst x = a \<or> fst x = b) \<and> (g (snd x) = a \<or> g (snd x) = b)" and "a \<noteq> b"
  shows "length (filter (\<lambda>(t, p). t = a \<and> g p = a) ps) + length (filter (\<lambda>(t, p). t = a \<and> g p = b) ps) +
         length (filter (\<lambda>(t, p). t = b \<and> g p = a) ps) + length (filter (\<lambda>(t, p). t = b \<and> g p = b) ps)
         = length ps"
  using assms
proof (induction ps)
  case Nil
  show ?case by simp
next
  case (Cons x ps)
  obtain t p where x: "x = (t, p)" by (cases x)
  from Cons.prems(1) have rest: "\<forall>x\<in>set ps. (fst x = a \<or> fst x = b) \<and> (g (snd x) = a \<or> g (snd x) = b)"
    by simp
  note ih = Cons.IH [OF rest Cons.prems(2)]
  from Cons.prems(1) x have "(t = a \<or> t = b) \<and> (g p = a \<or> g p = b)" by simp
  then consider "t = a" "g p = a" | "t = a" "g p = b" | "t = b" "g p = a" | "t = b" "g p = b"
    by blast
  then show ?case
    using ih Cons.prems(2) by cases (simp_all add: x)
qed

lemma square_four:
  assumes "(n::nat) * n = 4"
  shows "n = 2"
proof -
  have "n < 3"
  proof (rule ccontr)
    assume "\<not> n < 3"
    then have "3 * 3 \<le> n * n" by (intro mult_le_mono) simp_all
    with assms show False by simp
  qed
  then consider "n = 0" | "n = 1" | "n = 2" by linarith
  then show ?thesis using assms by cases simp_all
qed

lemma unpack4_Inr: "unpack4 xs = Inr (a, b, c, d) \<Longrightarrow> xs = [a, b, c, d]"
  by (induction xs rule: unpack4.induct) simp_all

lemma confusion_matrix_counts:
  assumes cm: "confusion_matrix yt yp = Inr m" and u: "unpack4 (ravel m) = Inr (tn, fp, fn, tp)"
  shows "\<exists>lo hi. np_unique (yt @ map real_of_int yp) = [lo, hi] \<and> lo < hi \<and> length yp = length yt \<and>
     tn = int (length (filter (\<lambda>(t, p). t = lo \<and> real_of_int p = lo) (zip yt yp))) \<and>
     fp = int (length (filter (\<lambda>(t, p). t = lo \<and> real_of_int p = hi) (zip yt yp))) \<and>
     fn = int (length (filter (\<lambda>(t, p). t = hi \<and> real_of_int p = lo) (zip yt yp))) \<and>
     tp = int (length (filter (\<lambda>(t, p). t = hi \<and> real_of_int p = hi) (zip yt yp))) \<and>
     tn + fp + fn + tp = int (length yt)"
proof -
  define labels where "labels = np_unique (yt @ map real_of_int yp)"
  define cell where "cell = (\<lambda>i j. int (length (filter (\<lambda>(t, p). t = i \<and> real_of_int p = j) (zip yt yp))))"
  from cm have len: "length yp = length yt"
    and m: "m = map (\<lambda>i. map (cell i) labels) labels"
    by (simp_all add: confusion_matrix_def labels_def cell_def Let_def split: if_splits)
  from u have r: "ravel m = [tn, fp, fn, tp]" by (rule unpack4_Inr)
  then have "length (ravel m) = 4" by simp
  then have "length labels * length labels = 4"
    by (simp add: ravel_def m length_concat_square)
  then have "length labels = 2"
    by (rule square_four)
  then obtain lo hi where l: "labels = [lo, hi]"
    by (auto simp: length_Suc_conv numeral_2_eq_2)
  have "distinct labels"
    by (simp add: labels_def distinct_np_unique)
  moreover have "sorted labels"
    by (simp add: labels_def np_unique_def sorted_remdups_adj)
  ultimately have "distinct labels \<and> sorted labels" ..
  with l have lt: "lo < hi" by auto
  have setl: "set labels = set yt \<union> real_of_int ` set yp"
    by (simp add: labels_def set_np_unique)
  have mem: "\<forall>x\<in>set (zip yt yp). (fst x = lo \<or> fst x = hi) \<and>
       (real_of_int (snd x) = lo \<or> real_of_int (snd x) = hi)"
  proof
    fix x assume "x \<in> set (zip yt yp)"
    then have xin: "(fst x, snd x) \<in> set (zip yt yp)" by simp
    have "fst x \<in> set yt" using xin by (rule set_zip_leftD)
    moreover have "snd x \<in> set yp" using xin by (rule set_zip_rightD)
    ultimately have "fst x \<in> set labels" and "real_of_int (snd x) \<in> set labels"
      using setl by auto
    then show "(fst x = lo \<or> fst x = hi) \<and> (real_of_int (snd x) = lo \<or> real_of_int (snd x) = hi)"
      using l by simp
  qed
  from r l have c: "tn = cell lo lo" "fp = cell lo hi" "fn = cell hi lo" "tp = cell hi hi"
    by (simp_all add: ravel_def m)
  from four_cells [OF mem] lt
  have "cell lo lo + cell lo hi + cell hi lo + cell hi hi = int (length (zip yt yp))"
    by (simp add: cell_def)
  with c len have total: "tn + fp + fn + tp = int (length yt)" by simp
  have u: "np_unique (yt @ map real_of_int yp) = [lo, hi]"
    using l by (simp add: labels_def)
  have c1: "tn = int (length (filter (\<lambda>(t, p). t = lo \<and> real_of_int p = lo) (zip yt yp)))"
    and c2: "fp = int (length (filter (\<lambda>(t, p). t = lo \<and> real_of_int p = hi) (zip yt yp)))"
    and c3: "fn = int (length (filter (\<lambda>(t, p). t = hi \<and> real_of_int p = lo) (zip yt yp)))"
    and c4: "tp = int (length (filter (\<lambda>(t, p). t = hi \<and> real_of_int p = hi) (zip yt yp)))"
    using c by (simp_all add: cell_def)
  show ?thesis
    by (intro exI [of _ lo] exI [of _ hi] conjI) (fact u lt len c1 c2 c3 c4 total)+
qed

section \<open>Operations leave the metrics alone\<close>

lemma MetricsReport_target_info_frame:
  assumes "MetricsReport_target_info lib self = Inr s"
  shows "s = self\<lparr>target_info := target_info s\<rparr>"
  using assms unfolding MetricsReport_target_info_def Let_def
  by (auto split: if_splits)

lemma save_report_frame:
  "fst (snd (save_report lib self folder name w))
     = self\<lparr>target_info := target_info (fst (snd (save_report lib self folder name w)))\<rparr>"
proof (cases "recreate_folder folder w")
  case (Pair res w1)
  show ?thesis
  proof (cases res)
    case (Inl e)
    with Pair show ?thesis by (simp add: save_report_def)
  next
    case (Inr u)
    show ?thesis
    proof (cases "MetricsReport_target_info lib self")
      case (Inl e)
      with Pair Inr show ?thesis by (simp add: save_report_def)
    next
      case self1: (Inr self1)
      from MetricsReport_target_info_frame [OF self1]
      have "self1 = self\<lparr>target_info := target_info self1\<rparr>" .
      with Pair Inr self1 show ?thesis
        by (simp add: save_report_def split: prod.splits)
    qed
  qed
qed

lemma call_frame:
  assumes "call lib op (self, w) = (self', w')"
  shows "self' = self\<lparr>target_info := target_info self'\<rparr>"
proof (cases op)
  case (SaveReport folder name)
  with assms have "self' = fst (snd (save_report lib self folder name w))" by simp
  then show ?thesis using save_report_frame [of lib self folder name w] by simp
qed (use assms in auto)

lemma calls_frame:
  assumes "calls lib ops (self, w) = (self', w')"
  shows "self' = self\<lparr>target_info := target_info self'\<rparr>"
  using assms
proof (induction ops arbitrary: self w)
  case Nil
  then show ?case by (simp add: calls_def)
next
  case (Cons op ops)
  obtain s1 w1 where c: "call lib op (self, w) = (s1, w1)" by (cases "call lib op (self, w)")
  with Cons.prems have "calls lib ops (s1, w1) = (self', w')" by (simp add: calls_def)
  from Cons.IH [OF this] have a: "self' = s1\<lparr>target_info := target_info self'\<rparr>" .
  from call_frame [OF c] have b: "s1 = self\<lparr>target_info := target_info s1\<rparr>" .
  show ?case by (subst a, subst b) simp
qed

text \<open>
  C4.  On a classification report built from inputs of length \<open>N\<close>, and after any calls of
  its methods, the metrics mapping is the one the constructor stored, and its entries
  TN, FP, FN, TP are the integer counts of the four combinations of true label and
  binary prediction over the two labels present; they add up to \<open>N\<close>.
\<close>

theorem confusion_counts_total:
  assumes "MetricsReport lib yt yp th w = (Inr r, w1)"
    and "task_type r = ''classification''"
    and "calls lib ops (r, w1) = (r', w')"
  shows "metrics r' = metrics r \<and> y_true r' = yt \<and> y_pred_binary r' = y_pred_binary r \<and>
    (\<exists>b tn fp fn tp lo hi.
       y_pred_binary r = Some b \<and> length b = length (vals yt) \<and>
       np_unique (vals yt @ map real_of_int b) = [lo, hi] \<and>
       map_of (metrics r') ''TN'' = Some (PyInt tn) \<and>
       map_of (metrics r') ''FP'' = Some (PyInt fp) \<and>
       map_of (metrics r') ''FN'' = Some (PyInt fn) \<and>
       map_of (metrics r') ''TP'' = Some (PyInt tp) \<and>
       tn = int (length (filter (\<lambda>(t, p). t = lo \<and> real_of_int p = lo) (zip (vals yt) b))) \<and>
       fp = int (length (filter (\<lambda>(t, p). t = lo \<and> real_of_int p = hi) (zip (vals yt) b))) \<and>
       fn = int (length (filter (\<lambda>(t, p). t = hi \<and> real_of_int p = lo) (zip (vals yt) b))) \<and>
       tp = int (length (filter (\<lambda>(t, p). t = hi \<and> real_of_int p = hi) (zip (vals yt) b))) \<and>
       tn + fp + fn + tp = int (length (vals yt)))"
proof -
  from assms(1) have i: "fst (MetricsReport lib yt yp th w) = Inr r" by simp
  from MetricsReport_Inr [OF i] assms(2)
  have g: "generate_classification_metrics lib r = Inr (metrics r)" and y: "y_true r = yt"
    by simp_all
  from calls_frame [OF assms(3)] have f: "r' = r\<lparr>target_info := target_info r'\<rparr>" .
  have same: "metrics r' = metrics r" "y_true r' = yt" "y_pred_binary r' = y_pred_binary r"
    by (subst f, simp add: y)+
  from g obtain b cm tn fp fn tp auc ll ap acc prec rec f1 mcc where
    b: "y_pred_binary r = Some b"
    and cm: "confusion_matrix (vals (y_true r)) b = Inr cm"
    and u: "unpack4 (ravel cm) = Inr (tn, fp, fn, tp)"
    and m: "metrics r = [(''AUC'', PyFloat (py_round lib auc 4)),
          (''Log Loss'', PyFloat (py_round lib ll 4)),
          (''Average_Precision'', PyFloat (py_round lib ap 4)),
          (''Accuracy'', PyFloat (py_round lib acc 4)),
          (''Precision'', PyFloat (py_round lib prec 4)),
          (''Recall'', PyFloat (py_round lib rec 4)),
          (''F1 Score'', PyFloat (py_round lib f1 4)),
          (''MCC'', PyFloat (py_round lib mcc 4)),
          (''TN'', PyInt tn), (''FP'', PyInt fp), (''FN'', PyInt fn), (''TP'', PyInt tp)]"
    by (rule generate_classification_metrics_Inr)
  from confusion_matrix_counts [OF cm [unfolded y] u] obtain lo hi where
    c: "np_unique (vals yt @ map real_of_int b) = [lo, hi]" "length b = length (vals yt)"
       "tn = int (length (filter (\<lambda>(t, p). t = lo \<and> real_of_int p = lo) (zip (vals yt) b)))"
       "fp = int (length (filter (\<lambda>(t, p). t = lo \<and> real_of_int p = hi) (zip (vals yt) b)))"
       "fn = int (length (filter (\<lambda>(t, p). t = hi \<and> real_of_int p = lo) (zip (vals yt) b)))"
       "tp = int (length (filter (\<lambda>(t, p). t = hi \<and> real_of_int p = hi) (zip (vals yt) b)))"
       "tn + fp + fn + tp = int (length (vals yt))"
    by blast
  have look: "map_of (metrics r') ''TN'' = Some (PyInt tn)" "map_of (metrics r') ''FP'' = Some (PyInt fp)"
    "map_of (metrics r') ''FN'' = Some (PyInt fn)" "map_of (metrics r') ''TP'' = Some (PyInt tp)"
    by (simp_all add: same m)
  have "\<exists>b tn fp fn tp lo hi.
       y_pred_binary r = Some b \<and> length b = length (vals yt) \<and>
       np_unique (vals yt @ map real_of_int b) = [lo, hi] \<and>
       map_of (metrics r') ''TN'' = Some (PyInt tn) \<and>
       map_of (metrics r') ''FP'' = Some (PyInt fp) \<and>
       map_of (metrics r') ''FN'' = Some (PyInt fn) \<and>
       map_of (metrics r') ''TP'' = Some (PyInt tp) \<and>
       tn = int (length (filter (\<lambda>(t, p). t = lo \<and> real_of_int p = lo) (zip (vals yt) b))) \<and>
       fp = int (length (filter (\<lambda>(t, p). t = lo \<and> real_of_int p = hi) (zip (vals yt) b))) \<and>
       fn = int (length (filter (\<lambda>(t, p). t = hi \<and> real_of_int p = lo) (zip (vals yt) b))) \<and>
       tp = int (length (filter (\<lambda>(t, p). t = hi \<and> real_of_int p = hi) (zip (vals yt) b))) \<and>
       tn + fp + fn + tp = int (length (vals yt))"
    by (intro exI [of _ b] exI [of _ tn] exI [of _ fp] exI [of _ fn] exI [of _ tp]
        exI [of _ lo] exI [of _ hi] conjI) (fact b c look)+
  with same show ?thesis by simp
qed

theorem confusion_counts_total_witness:
  "\<exists>r w1 r' w' tn fp fn tp.
     MetricsReport fixture_library fixture_y_true fixture_y_pred 0.5 empty_world = (Inr r, w1) \<and>
     task_type r = ''classification'' \<and>
     calls fixture_library fixture_session (r, w1) = (r', w') \<and>
     map_of (metrics r') ''TN'' = Some (PyInt tn) \<and> map_of (metrics r') ''FP'' = Some (PyInt fp) \<and>
     map_of (metrics r') ''FN'' = Some (PyInt fn) \<and> map_of (metrics r') ''TP'' = Some (PyInt tp) \<and>
     tn + fp + fn + tp = 13 \<and> length (vals fixture_y_true) = 13"
proof -
  have "\<not> isl (fst (MetricsReport fixture_library fixture_y_true fixture_y_pred 0.5 empty_world))"
    by code_simp
  then obtain r w1 where
    r: "MetricsReport fixture_library fixture_y_true fixture_y_pred 0.5 empty_world = (Inr r, w1)"
    by (cases "MetricsReport fixture_library fixture_y_true fixture_y_pred 0.5 empty_world")
       (auto simp: isl_def, metis sum.exhaust)
  then have i: "fst (MetricsReport fixture_library fixture_y_true fixture_y_pred 0.5 empty_world) = Inr r"
    by simp
  have t: "task_type r = ''classification''"
    using MetricsReport_Inr [OF i]
    by (simp add: fixture_y_true_def determine_task_type_def np_unique_def)
  obtain r' w' where c: "calls fixture_library fixture_session (r, w1) = (r', w')"
    by (cases "calls fixture_library fixture_session (r, w1)")
  have n: "length (vals fixture_y_true) = 13" by (simp add: fixture_y_true_def)
  from confusion_counts_total [OF r t c] n obtain tn fp fn tp where
    "map_of (metrics r') ''TN'' = Some (PyInt tn)" "map_of (metrics r') ''FP'' = Some (PyInt fp)"
    "map_of (metrics r') ''FN'' = Some (PyInt fn)" "map_of (metrics r') ''TP'' = Some (PyInt tp)"
    "tn + fp + fn + tp = 13"
    by auto
  with r t c n show ?thesis by blast
qed

section \<open>File operations, read backwards\<close>

lemma map_of_filter_key:
  "map_of (filter (\<lambda>(k, _). P k) xs) q = (if P q then map_of xs q else None)"
  by (induction xs) auto

lemma map_of_new_dirs:
  "map_of (map (\<lambda>a. (a, Dir)) as) q = (if q \<in> set as then Some Dir else None)"
  by (induction as) auto

lemma shutil_rmtree_Inr:
  assumes "shutil_rmtree p w = (Inr (), w')"
  shows "cwd w' = cwd w \<and> abspath w p \<noteq> [] \<and>
         (\<forall>q. node_at w' q = (if q = [] then Some Dir
                               else if prefix (abspath w p) q then None else node_at w q))"
  using assms unfolding shutil_rmtree_def Let_def
  by (auto simp: node_at_def map_of_filter_key split: if_splits option.splits node.splits)

lemma os_makedirs_Inr:
  assumes "os_makedirs p w = (Inr (), w')"
  shows "cwd w' = cwd w \<and> node_at w (abspath w p) = None \<and>
         (\<forall>q. node_at w' q = (if node_at w q \<noteq> None then node_at w q
                               else if prefix q (abspath w p) then Some Dir else None))"
  using assms unfolding os_makedirs_def Let_def
  by (auto simp: node_at_def map_of_append map_add_def map_of_new_dirs in_set_prefixes
      split: if_splits option.splits)

lemma write_file_Inr:
  assumes "write_file p c w = (Inr (), w')"
  shows "cwd w' = cwd w \<and> node_at w (abspath w p) \<noteq> Some Dir \<and>
         (\<forall>q. node_at w' q = (if q = abspath w p then Some (File c) else node_at w q))"
  using assms unfolding write_file_def Let_def
  by (auto simp: node_at_def update_conv' split: if_splits option.splits node.splits)

section \<open>More on paths\<close>

lemma abspath_cwd: "cwd w' = cwd w \<Longrightarrow> abspath w' p = abspath w p"
  by (simp add: abspath_def)

lemma enter_long: "3 \<le> length c \<Longrightarrow> enter d c = d @ [c]"
  by (auto simp: enter_def)

lemma split_at_slash_nonempty: "split_at_slash cur s \<noteq> []"
  by (induction s arbitrary: cur) simp_all

lemma split_at_slash_suffix:
  assumes "CHR ''/'' \<notin> set s"
  shows "split_at_slash cur (n @ s)
         = butlast (split_at_slash cur n) @ [last (split_at_slash cur n) @ s]"
  using assms
proof (induction n arbitrary: cur)
  case Nil
  then show ?case by (simp add: split_at_slash_no_slash)
next
  case (Cons c n)
  then show ?case by (simp add: split_at_slash_nonempty)
qed

lemma abspath_png:
  assumes "folder \<noteq> []" and "CHR ''/'' \<notin> set key"
  shows "abspath w (folder @ ''/plots/'' @ key @ ''.png'') = abspath w folder @ [''plots'', key @ ''.png'']"
proof -
  have "split_at_slash [] (''plots'' @ CHR ''/'' # (key @ ''.png'')) = [''plots'', key @ ''.png'']"
    using assms(2) by (subst split_at_slash_append) (simp add: split_at_slash_no_slash)
  then have "split_at_slash [] (''plots/'' @ key @ ''.png'') = [''plots'', key @ ''.png'']" by simp
  with abspath_slash [OF assms(1), of w "''plots/'' @ key @ ''.png''"]
  show ?thesis by (simp add: enter_long)
qed

lemma abspath_report:
  assumes "folder \<noteq> []" and "CHR ''/'' \<notin> set s" and "3 \<le> length s"
  shows "abspath w (folder @ ''/'' @ name @ s)
         = foldl enter (abspath w folder) (butlast (split_at_slash [] name))
           @ [last (split_at_slash [] name) @ s]"
  using abspath_slash [OF assms(1), of w "name @ s"] assms(2,3)
  by (simp add: split_at_slash_suffix enter_long)

lemma report_paths_differ:
  assumes "folder \<noteq> []"
  shows "abspath w (folder @ ''/'' @ name @ ''.html'') \<noteq> abspath w (folder @ ''/'' @ name @ ''.md'')"
  using abspath_report [OF assms, of "''.html''" w name] abspath_report [OF assms, of "''.md''" w name]
  by simp

section \<open>Saving a report\<close>

lemma then_io_eq_Inr:
  "then_io m f = (Inr y, w') \<longleftrightarrow> (\<exists>x wm. m = (Inr x, wm) \<and> f x wm = (Inr y, w'))"
  by (cases m) (auto simp: then_io_def split: sum.splits)

lemma os_makedirs_nonempty: "os_makedirs p w = (Inr (), w') \<Longrightarrow> p \<noteq> []"
  by (auto simp: os_makedirs_def)

lemma node_at_print [simp]: "node_at (print s w) q = node_at w q"
  by (simp add: node_at_def print_def)

lemma cwd_print [simp]: "cwd (print s w) = cwd w"
  by (simp add: print_def)

lemma well_formed_above:
  assumes "well_formed w" and "node_at w (p @ zs) \<noteq> None"
  shows "node_at w p \<noteq> None"
  using assms(2)
proof (induction zs rule: rev_induct)
  case Nil
  then show ?case by simp
next
  case (snoc z zs)
  then have "map_of (files w) (p @ zs @ [z]) \<noteq> None"
    by (simp add: node_at_def)
  then obtain n where "(p @ zs @ [z], n) \<in> set (files w)"
    by (auto dest: map_of_SomeD)
  with assms(1) have "node_at w (butlast (p @ zs @ [z])) = Some Dir"
    by (auto simp: well_formed_def list_all_iff)
  then have "node_at w (p @ zs) \<noteq> None"
    by (simp add: butlast_append)
  then show ?case by (rule snoc.IH)
qed

lemma recreate_folder_Inr:
  assumes "recreate_folder folder w = (Inr (), w')" and "folder \<noteq> ''.''"
  shows "cwd w' = cwd w \<and> folder \<noteq> [] \<and> node_at w' (abspath w folder) = Some Dir \<and>
         (os_path_exists folder w \<or> well_formed w \<longrightarrow>
            (\<forall>q. strict_prefix (abspath w folder) q \<longrightarrow> node_at w' q = None))"
proof (cases "os_path_exists folder w")
  case True
  with assms obtain wm where
    rm: "shutil_rmtree folder w = (Inr (), wm)" and mk: "os_makedirs folder wm = (Inr (), w')"
    by (auto simp: recreate_folder_def then_io_eq_Inr)
  note a = shutil_rmtree_Inr [OF rm] and b = os_makedirs_Inr [OF mk]
  from a have "cwd wm = cwd w" by simp
  then have p: "abspath wm folder = abspath w folder" by (rule abspath_cwd)
  have "node_at w' (abspath w folder) = Some Dir"
    using b by (simp add: p)
  moreover have "\<forall>q. strict_prefix (abspath w folder) q \<longrightarrow> node_at w' q = None"
  proof (intro allI impI)
    fix q assume s: "strict_prefix (abspath w folder) q"
    then have "q \<noteq> []" "prefix (abspath w folder) q" "\<not> prefix q (abspath w folder)"
      by (auto simp: strict_prefix_def)
    with a b p show "node_at w' q = None" by simp
  qed
  ultimately show ?thesis
    using a b os_makedirs_nonempty [OF mk] by simp
next
  case False
  with assms have mk: "os_makedirs folder w = (Inr (), w')"
    by (simp add: recreate_folder_def)
  note b = os_makedirs_Inr [OF mk]
  have "\<forall>q. strict_prefix (abspath w folder) q \<longrightarrow> node_at w' q = None" if wf: "well_formed w"
  proof (intro allI impI)
    fix q assume s: "strict_prefix (abspath w folder) q"
    then obtain zs where z: "q = abspath w folder @ zs"
      by (auto simp: strict_prefix_def prefix_def)
    from b have n: "node_at w (abspath w folder) = None" by simp
    have "node_at w q = None"
    proof (rule ccontr)
      assume "node_at w q \<noteq> None"
      then have "node_at w (abspath w folder @ zs) \<noteq> None" using z by simp
      from well_formed_above [OF wf this] n show False by simp
    qed
    moreover from s have "\<not> prefix q (abspath w folder)"
      by (auto simp: strict_prefix_def)
    ultimately show "node_at w' q = None" using b by simp
  qed
  with b os_makedirs_nonempty [OF mk] False show ?thesis by simp
qed

lemma for_each_plot_save_Inr:
  assumes "for_each_plot lib self True folder plots w = (Inr (), w')"
  shows "cwd w' = cwd w \<and>
         (\<forall>q. node_at w q = Some Dir \<longrightarrow> node_at w' q = Some Dir) \<and>
         (\<forall>q. q \<notin> (\<lambda>key. abspath w (folder @ ''/plots/'' @ key @ ''.png'')) ` fst ` set plots
               \<longrightarrow> node_at w' q = node_at w q) \<and>
         (distinct (map (\<lambda>key. abspath w (folder @ ''/plots/'' @ key @ ''.png'')) (map fst plots)) \<longrightarrow>
            (\<forall>key plot_func. (key, plot_func) \<in> set plots \<longrightarrow>
               (\<exists>fig. plot_func lib self = Inr fig \<and>
                  node_at w' (abspath w (folder @ ''/plots/'' @ key @ ''.png'')) = Some (File fig))))"
  using assms
proof (induction plots arbitrary: w)
  case Nil
  then show ?case by simp
next
  case (Cons a plots)
  obtain plot_name plot_func where a: "a = (plot_name, plot_func)" by (cases a)
  from Cons.prems a obtain fig wm where
    fig: "plot_func lib self = Inr fig"
    and wr: "write_file (folder @ ''/plots/'' @ plot_name @ ''.png'') fig w = (Inr (), wm)"
    and rest: "for_each_plot lib self True folder plots wm = (Inr (), w')"
    by (auto simp: then_io_eq_Inr split: sum.splits)
  note f = write_file_Inr [OF wr] and ih = Cons.IH [OF rest]
  from f have "cwd wm = cwd w" by simp
  then have p: "\<And>x. abspath wm x = abspath w x" by (rule abspath_cwd)
  let ?png = "\<lambda>key. abspath w (folder @ ''/plots/'' @ key @ ''.png'')"
  from ih have ih1: "\<forall>q. node_at wm q = Some Dir \<longrightarrow> node_at w' q = Some Dir"
    and ih2: "\<forall>q. q \<notin> ?png ` fst ` set plots \<longrightarrow> node_at w' q = node_at wm q"
    and ih3: "distinct (map ?png (map fst plots)) \<longrightarrow>
            (\<forall>key plot_func. (key, plot_func) \<in> set plots \<longrightarrow>
               (\<exists>fig. plot_func lib self = Inr fig \<and> node_at w' (?png key) = Some (File fig)))"
    unfolding p by simp_all
  from f have fr: "\<forall>q. node_at wm q = (if q = ?png plot_name then Some (File fig) else node_at w q)"
    and nd: "node_at w (?png plot_name) \<noteq> Some Dir"
    by simp_all
  have "cwd w' = cwd w" using f ih by simp
  moreover have "\<forall>q. node_at w q = Some Dir \<longrightarrow> node_at w' q = Some Dir"
  proof (intro allI impI)
    fix q assume "node_at w q = Some Dir"
    with fr nd have "node_at wm q = Some Dir" by auto
    with ih1 show "node_at w' q = Some Dir" by simp
  qed
  moreover have "\<forall>q. q \<notin> ?png ` fst ` set (a # plots) \<longrightarrow> node_at w' q = node_at w q"
  proof (intro allI impI)
    fix q assume q: "q \<notin> ?png ` fst ` set (a # plots)"
    then have "q \<notin> ?png ` fst ` set plots" and "q \<noteq> ?png plot_name"
      using a by auto
    with ih2 fr show "node_at w' q = node_at w q" by simp
  qed
  moreover have "distinct (map ?png (map fst (a # plots))) \<longrightarrow>
            (\<forall>key pf. (key, pf) \<in> set (a # plots) \<longrightarrow>
               (\<exists>fig. pf lib self = Inr fig \<and> node_at w' (?png key) = Some (File fig)))"
  proof (intro allI impI)
    fix key pf
    assume d: "distinct (map ?png (map fst (a # plots)))" and m: "(key, pf) \<in> set (a # plots)"
    from d a have d1: "?png plot_name \<notin> ?png ` fst ` set plots"
      and d2: "distinct (map ?png (map fst plots))"
      by (simp_all add: image_image)
    from m a consider "key = plot_name" "pf = plot_func" | "(key, pf) \<in> set plots" by auto
    then show "\<exists>fig. pf lib self = Inr fig \<and> node_at w' (?png key) = Some (File fig)"
    proof cases
      case 1
      from d1 ih2 have "node_at w' (?png plot_name) = node_at wm (?png plot_name)" by blast
      with fr have "node_at w' (?png plot_name) = Some (File fig)" by simp
      with fig 1 show ?thesis by simp
    next
      case 2
      with ih3 d2 show ?thesis by blast
    qed
  qed
  ultimately show ?case by blast
qed

lemma recreate_plots_dir_Inr:
  assumes "recreate_plots_dir True folder w = (Inr (), w')"
  shows "cwd w' = cwd w \<and>
         node_at w' (abspath w (folder @ ''/plots'')) = Some Dir \<and>
         (\<forall>q. node_at w q = Some Dir \<and> \<not> prefix (abspath w (folder @ ''/plots'')) q
               \<longrightarrow> node_at w' q = Some Dir) \<and>
         (\<forall>q. node_at w' q \<noteq> None \<longrightarrow> node_at w q \<noteq> None \<or> prefix q (abspath w (folder @ ''/plots'')))"
proof (cases "os_path_exists (folder @ ''/plots'') w")
  case True
  with assms obtain wm where
    rm: "shutil_rmtree (folder @ ''/plots'') w = (Inr (), wm)"
    and mk: "os_makedirs (folder @ ''/plots'') wm = (Inr (), w')"
    by (auto simp: recreate_plots_dir_def then_io_eq_Inr)
  note a = shutil_rmtree_Inr [OF rm] and b = os_makedirs_Inr [OF mk]
  from a have "cwd wm = cwd w" by simp
  then have p: "abspath wm (folder @ ''/plots'') = abspath w (folder @ ''/plots'')"
    by (rule abspath_cwd)
  show ?thesis
  proof (intro conjI allI impI)
    show "cwd w' = cwd w" using a b by simp
  next
    show "node_at w' (abspath w (folder @ ''/plots'')) = Some Dir"
      using b by (simp add: p)
  next
    fix q assume q: "node_at w q = Some Dir \<and> \<not> prefix (abspath w (folder @ ''/plots'')) q"
    with a have "node_at wm q = Some Dir" by (auto simp: node_at_def)
    with b show "node_at w' q = Some Dir" by simp
  next
    fix q assume "node_at w' q \<noteq> None"
    with b p have "node_at wm q \<noteq> None \<or> prefix q (abspath w (folder @ ''/plots''))"
      by (auto split: if_splits)
    moreover have "node_at wm q \<noteq> None \<Longrightarrow> node_at w q \<noteq> None"
      using a by (auto simp: node_at_def split: if_splits)
    ultimately show "node_at w q \<noteq> None \<or> prefix q (abspath w (folder @ ''/plots''))" by blast
  qed
next
  case False
  with assms have mk: "os_makedirs (folder @ ''/plots'') w = (Inr (), w')"
    by (simp add: recreate_plots_dir_def)
  from os_makedirs_Inr [OF mk] show ?thesis by (auto split: if_splits)
qed

lemma then_io_unit_Inr:
  "then_io m f = (Inr y, w') \<longleftrightarrow> (\<exists>wm. m = (Inr (), wm) \<and> f () wm = (Inr y, w'))"
  by (simp add: then_io_eq_Inr)

lemma plot_table_no_slash:
  "(key, plot_func) \<in> set (plot_table_of self) \<Longrightarrow> CHR ''/'' \<notin> set key"
  by (auto simp: plot_table_of_def classification_plot_table_def regression_plot_table_def
      split: if_splits)

lemma plot_table_distinct: "distinct (map fst (plot_table_of self))"
  by (simp add: plot_table_of_def classification_plot_table_def regression_plot_table_def)

lemma plot_table_paths:
  assumes "folder \<noteq> []"
  shows "map (\<lambda>key. abspath w (folder @ ''/plots/'' @ key @ ''.png'')) (map fst (plot_table_of self))
         = map (\<lambda>(key, plot_func). abspath w folder @ [''plots'', key @ ''.png'']) (plot_table_of self)"
  using abspath_png [OF assms, of _ w] plot_table_no_slash [of _ _ self]
  by (auto simp: case_prod_beta)

lemma plot_table_paths_distinct:
  "distinct (map (\<lambda>(key, plot_func). f @ [''plots'', key @ ''.png'']) (plot_table_of self))"
proof -
  have "inj (\<lambda>key. f @ [''plots'', key @ ''.png''])"
    by (rule injI) simp
  then have "distinct (map (\<lambda>key. f @ [''plots'', key @ ''.png'']) (map fst (plot_table_of self)))"
    using plot_table_distinct [of self] by (simp only: distinct_map) (auto intro: inj_on_subset)
  then show ?thesis by (simp add: case_prod_unfold comp_def)
qed

lemma save_plots_Inr:
  assumes "save_plots lib self folder w = (Inr (), w')" and "folder \<noteq> []"
  shows "cwd w' = cwd w \<and>
         (\<forall>q. node_at w q = Some Dir \<and> \<not> prefix (abspath w folder @ [''plots'']) q
               \<longrightarrow> node_at w' q = Some Dir) \<and>
         (\<forall>q. node_at w' q \<noteq> None \<longrightarrow>
               node_at w q \<noteq> None \<or> prefix q (abspath w folder @ [''plots'']) \<or>
               q \<in> set (map (\<lambda>(key, plot_func). abspath w folder @ [''plots'', key @ ''.png''])
                          (plot_table_of self))) \<and>
         (\<forall>key plot_func. (key, plot_func) \<in> set (plot_table_of self) \<longrightarrow>
            (\<exists>fig. plot_func lib self = Inr fig \<and>
               node_at w' (abspath w folder @ [''plots'', key @ ''.png'']) = Some (File fig)))"
proof (cases "plot_table_of self = []")
  case True
  then have "task_type self \<noteq> ''classification''" and "task_type self \<noteq> ''regression''"
    by (auto simp: plot_table_of_def classification_plot_table_def regression_plot_table_def
        split: if_splits)
  with assms(1) have "w' = w" by (simp add: save_plots_def)
  with True show ?thesis by simp
next
  case False
  then have run: "then_io (recreate_plots_dir True folder w)
               (\<lambda>_. for_each_plot lib self True folder (plot_table_of self)) = (Inr (), w')"
    using assms(1)
    by (auto simp: plot_table_of_def save_plots_def classification_plots_def regression_plots_def
        split: if_splits)
  then obtain wm where
    d: "recreate_plots_dir True folder w = (Inr (), wm)"
    and l: "for_each_plot lib self True folder (plot_table_of self) wm = (Inr (), w')"
    by (auto simp: then_io_eq_Inr)
  note a = recreate_plots_dir_Inr [OF d] and b = for_each_plot_save_Inr [OF l]
  from a have "cwd wm = cwd w" by simp
  then have p: "\<And>x. abspath wm x = abspath w x" by (rule abspath_cwd)
  note pd = abspath_plots_dir [OF assms(2), of w]
  note tp = plot_table_paths [OF assms(2), of w self]
  let ?pngs = "map (\<lambda>(key, plot_func). abspath w folder @ [''plots'', key @ ''.png'']) (plot_table_of self)"
  from b have b1: "\<forall>q. node_at wm q = Some Dir \<longrightarrow> node_at w' q = Some Dir"
    and b2: "\<forall>q. q \<notin> set ?pngs \<longrightarrow> node_at w' q = node_at wm q"
    and b3: "distinct ?pngs \<longrightarrow>
            (\<forall>key plot_func. (key, plot_func) \<in> set (plot_table_of self) \<longrightarrow>
               (\<exists>fig. plot_func lib self = Inr fig \<and>
                  node_at w' (abspath w (folder @ ''/plots/'' @ key @ ''.png'')) = Some (File fig)))"
    unfolding p tp [symmetric] by (simp_all add: image_image)
  from a have a1: "\<forall>q. node_at w q = Some Dir \<and> \<not> prefix (abspath w folder @ [''plots'']) q
               \<longrightarrow> node_at wm q = Some Dir"
    and a2: "\<forall>q. node_at wm q \<noteq> None \<longrightarrow> node_at w q \<noteq> None \<or> prefix q (abspath w folder @ [''plots''])"
    unfolding pd by simp_all
  show ?thesis
  proof (intro conjI allI impI)
    show "cwd w' = cwd w" using a b by simp
  next
    fix q assume "node_at w q = Some Dir \<and> \<not> prefix (abspath w folder @ [''plots'']) q"
    with a1 have "node_at wm q = Some Dir" by blast
    with b1 show "node_at w' q = Some Dir" by blast
  next
    fix q assume n: "node_at w' q \<noteq> None"
    show "node_at w q \<noteq> None \<or> prefix q (abspath w folder @ [''plots'']) \<or> q \<in> set ?pngs"
    proof (cases "q \<in> set ?pngs")
      case True
      then show ?thesis by simp
    next
      case False
      with b2 n have "node_at wm q \<noteq> None" by simp
      with a2 show ?thesis by blast
    qed
  next
    fix key plot_func assume m: "(key, plot_func) \<in> set (plot_table_of self)"
    with b3 plot_table_paths_distinct [of "abspath w folder" self]
    obtain fig where "plot_func lib self = Inr fig"
      "node_at w' (abspath w (folder @ ''/plots/'' @ key @ ''.png'')) = Some (File fig)"
      by blast
    with abspath_png [OF assms(2) plot_table_no_slash [OF m], of w]
    show "\<exists>fig. plot_func lib self = Inr fig \<and>
               node_at w' (abspath w folder @ [''plots'', key @ ''.png'']) = Some (File fig)"
      by simp
  qed
qed

section \<open>The report files\<close>

lemma html_not_png: "\<not> suffix ''.png'' (a @ ''.html'')"
proof
  assume "suffix ''.png'' (a @ ''.html'')"
  then obtain u where "a @ ''.html'' = u @ ''.png''" by (auto simp: suffix_def)
  then have "last (a @ ''.html'') = last (u @ ''.png'')" by simp
  then show False by simp
qed

lemma md_not_png: "\<not> suffix ''.png'' (a @ ''.md'')"
proof
  assume "suffix ''.png'' (a @ ''.md'')"
  then obtain u where "a @ ''.md'' = u @ ''.png''" by (auto simp: suffix_def)
  then have "last (a @ ''.md'') = last (u @ ''.png'')" by simp
  then show False by simp
qed

lemma listing_update:
  assumes "\<not> P (last t)"
  shows "filter P (map (\<lambda>(k, _). last k) (filter (\<lambda>(k, _). k \<noteq> [] \<and> butlast k = d) (AList.update t v xs)))
         = filter P (map (\<lambda>(k, _). last k) (filter (\<lambda>(k, _). k \<noteq> [] \<and> butlast k = d) xs))"
proof (induction xs)
  case Nil
  with assms show ?case by simp
next
  case (Cons x xs)
  obtain k n where x: "x = (k, n)" by (cases x)
  show ?case
  proof (cases "k = t")
    case True
    with x show ?thesis by simp
  next
    case False
    with x Cons show ?thesis by simp
  qed
qed

lemma png_listing_update:
  assumes "\<not> suffix ''.png'' (last t)"
  shows "filter (suffix ''.png'')
           (map (\<lambda>(k, _). last k) (filter (\<lambda>(k, _). k \<noteq> [] \<and> butlast k = d) (AList.update t v xs)))
         = filter (suffix ''.png'')
           (map (\<lambda>(k, _). last k) (filter (\<lambda>(k, _). k \<noteq> [] \<and> butlast k = d) xs))"
  using assms by (rule listing_update)

lemma add_plot_images_write_file:
  assumes "write_file p c w = (Inr (), w')" and "\<not> suffix ''.png'' (last (abspath w p))"
    and "node_at w (abspath w (folder @ ''/plots/'')) = Some Dir"
  shows "MetricsReport_add_plot_images_to_report folder w'
         = MetricsReport_add_plot_images_to_report folder w"
proof -
  from assms(1) have f: "files w' = AList.update (abspath w p) (File c) (files w)"
    by (auto simp: write_file_def Let_def split: if_splits option.splits node.splits)
  note a = write_file_Inr [OF assms(1)]
  from a have "cwd w' = cwd w" by simp
  then have q: "abspath w' (folder @ ''/plots/'') = abspath w (folder @ ''/plots/'')"
    by (rule abspath_cwd)
  from a assms(3) have "node_at w' (abspath w (folder @ ''/plots/'')) = Some Dir" by auto
  with assms(3) show ?thesis
    unfolding MetricsReport_add_plot_images_to_report_def os_listdir_def Let_def q
    by (simp add: f bind_res_def png_listing_update [OF assms(2)])
qed

lemma generate_html_report_write_file:
  assumes "write_file p c w = (Inr (), w')" and "\<not> suffix ''.png'' (last (abspath w p))"
    and "node_at w (abspath w (folder @ ''/plots/'')) = Some Dir"
  shows "generate_html_report lib self folder add_css w' = generate_html_report lib self folder add_css w"
  unfolding generate_html_report_def add_plot_images_write_file [OF assms] ..

lemma os_listdir_print [simp]: "os_listdir p (print s w) = os_listdir p w"
proof -
  have f: "files (print s w) = files w" by (simp add: print_def)
  have a: "abspath (print s w) p = abspath w p" by (simp add: abspath_def)
  show ?thesis unfolding os_listdir_def Let_def f a node_at_print by (rule refl)
qed

lemma generate_html_report_print [simp]:
  "generate_html_report lib self folder add_css (print s w) = generate_html_report lib self folder add_css w"
  by (simp add: generate_html_report_def MetricsReport_add_plot_images_to_report_def)

lemma generate_html_report_Inr:
  assumes "generate_html_report lib self folder add_css w = Inr html"
  shows "node_at w (abspath w (folder @ ''/plots/'')) = Some Dir"
  using assms
  by (auto simp: generate_html_report_def MetricsReport_add_plot_images_to_report_def os_listdir_def
      bind_res_Inr Let_def split: if_splits option.splits node.splits)

lemma last_abspath_report:
  assumes "folder \<noteq> []" and "CHR ''/'' \<notin> set s" and "3 \<le> length s"
  shows "last (abspath w (folder @ ''/'' @ name @ s)) = last (split_at_slash [] name) @ s"
  unfolding abspath_report [OF assms] by (rule last_snoc)

lemma write_reports_Inr:
  assumes "write_reports lib self folder name w = (Inr (), w')" and "folder \<noteq> []"
  shows "cwd w' = cwd w \<and>
         (\<forall>q. node_at w q = Some Dir \<longrightarrow> node_at w' q = Some Dir) \<and>
         (\<forall>q. q \<noteq> abspath w (folder @ ''/'' @ name @ ''.html'') \<and>
               q \<noteq> abspath w (folder @ ''/'' @ name @ ''.md'') \<longrightarrow> node_at w' q = node_at w q) \<and>
         node_at w (abspath w folder @ [''plots'']) = Some Dir \<and>
         (\<exists>html md. generate_html_report lib self folder True w' = Inr html \<and>
                     bind_res (generate_html_report lib self folder False w') (markdownify lib) = Inr md \<and>
                     node_at w' (abspath w (folder @ ''/'' @ name @ ''.html'')) = Some (File html) \<and>
                     node_at w' (abspath w (folder @ ''/'' @ name @ ''.md'')) = Some (File md))"
proof -
  from assms(1) obtain html where
    g: "generate_html_report lib self folder True w = Inr html"
    and r1: "then_io (write_file (folder @ ''/'' @ name @ ''.html'') html w) (\<lambda>_ w1.
            case bind_res (generate_html_report lib self folder False w1) (markdownify lib) of
              Inl e \<Rightarrow> (Inl e, w1)
            | Inr md \<Rightarrow>
                then_io (write_file (folder @ ''/'' @ name @ ''.md'') md w1) (\<lambda>_ w2.
                  (Inr (), print (''Report saved in folder: '' @ folder) w2))) = (Inr (), w')"
    by (cases "generate_html_report lib self folder True w") (simp_all add: write_reports_def)
  then obtain w1 where
    h: "write_file (folder @ ''/'' @ name @ ''.html'') html w = (Inr (), w1)"
    and r2: "(case bind_res (generate_html_report lib self folder False w1) (markdownify lib) of
              Inl e \<Rightarrow> (Inl e, w1)
            | Inr md \<Rightarrow>
                then_io (write_file (folder @ ''/'' @ name @ ''.md'') md w1) (\<lambda>_ w2.
                  (Inr (), print (''Report saved in folder: '' @ folder) w2))) = (Inr (), w')"
    unfolding then_io_unit_Inr by blast
  then obtain md where
    g2: "bind_res (generate_html_report lib self folder False w1) (markdownify lib) = Inr md"
    and r3: "then_io (write_file (folder @ ''/'' @ name @ ''.md'') md w1) (\<lambda>_ w2.
           (Inr (), print (''Report saved in folder: '' @ folder) w2)) = (Inr (), w')"
    by (cases "bind_res (generate_html_report lib self folder False w1) (markdownify lib)") simp_all
  then obtain w2 where
    m: "write_file (folder @ ''/'' @ name @ ''.md'') md w1 = (Inr (), w2)"
    and w': "w' = print (''Report saved in folder: '' @ folder) w2"
    unfolding then_io_unit_Inr by blast
  note a = write_file_Inr [OF h] and b = write_file_Inr [OF m]
  from a have "cwd w1 = cwd w" by simp
  then have p: "\<And>x. abspath w1 x = abspath w x" by (rule abspath_cwd)
  note d = report_paths_differ [OF assms(2), of w name]
  note pl = generate_html_report_Inr [OF g]
  have nh: "\<not> suffix ''.png'' (last (abspath w (folder @ ''/'' @ name @ ''.html'')))"
    using last_abspath_report [OF assms(2), of "''.html''" w name] by (simp add: html_not_png)
  have nm: "\<not> suffix ''.png'' (last (abspath w1 (folder @ ''/'' @ name @ ''.md'')))"
    unfolding p using last_abspath_report [OF assms(2), of "''.md''" w name] by (simp add: md_not_png)
  have e1: "generate_html_report lib self folder css w1 = generate_html_report lib self folder css w" for css
    using h nh pl by (rule generate_html_report_write_file)
  from a pl have pl1: "node_at w1 (abspath w1 (folder @ ''/plots/'')) = Some Dir"
    unfolding p by auto
  have e2: "generate_html_report lib self folder css w2 = generate_html_report lib self folder css w1" for css
    using m nm pl1 by (rule generate_html_report_write_file)
  have e: "generate_html_report lib self folder css w' = generate_html_report lib self folder css w" for css
    unfolding w' by (simp add: e1 e2)
  show ?thesis
  proof (intro conjI allI impI)
    show "cwd w' = cwd w" using a b w' by simp
  next
    fix q assume "node_at w q = Some Dir"
    with a have "node_at w1 q = Some Dir" by auto
    with b have "node_at w2 q = Some Dir" by auto
    then show "node_at w' q = Some Dir" by (simp add: w')
  next
    fix q assume "q \<noteq> abspath w (folder @ ''/'' @ name @ ''.html'') \<and>
               q \<noteq> abspath w (folder @ ''/'' @ name @ ''.md'')"
    then show "node_at w' q = node_at w q"
      using a b unfolding p w' by simp
  next
    show "node_at w (abspath w folder @ [''plots'']) = Some Dir"
      using pl abspath_plots [of w folder] abspath_plots_dir [OF assms(2), of w] by simp
  next
    have "node_at w' (abspath w (folder @ ''/'' @ name @ ''.html'')) = Some (File html)"
      using a b d unfolding p w' by simp
    moreover have "node_at w' (abspath w (folder @ ''/'' @ name @ ''.md'')) = Some (File md)"
      using b unfolding p w' by simp
    moreover have "generate_html_report lib self folder True w' = Inr html"
      using g by (simp add: e)
    moreover have "bind_res (generate_html_report lib self folder False w') (markdownify lib) = Inr md"
      using g2 by (simp add: e e1)
    ultimately show "\<exists>html md. generate_html_report lib self folder True w' = Inr html \<and>
                     bind_res (generate_html_report lib self folder False w') (markdownify lib) = Inr md \<and>
                     node_at w' (abspath w (folder @ ''/'' @ name @ ''.html'')) = Some (File html) \<and>
                     node_at w' (abspath w (folder @ ''/'' @ name @ ''.md'')) = Some (File md)"
      by blast
  qed
qed

section \<open>Saving a report\<close>

lemma save_report_Inr:
  assumes "save_report lib self folder name w = (Inr (), self1, w')"
  obtains wa wb where
    "recreate_folder folder w = (Inr (), wa)"
    "MetricsReport_target_info lib self = Inr self1"
    "save_plots lib self1 folder wa = (Inr (), wb)"
    "write_reports lib self1 folder name wb = (Inr (), w')"
  using assms unfolding save_report_def
  by (auto simp: then_io_eq_Inr split: prod.splits sum.splits)

lemma save_report_nonempty:
  assumes "save_report lib self folder name w = (Inr (), self1, w')"
  shows "folder \<noteq> []"
proof (cases "folder = ''.''")
  case True
  then show ?thesis by auto
next
  case False
  from assms obtain wa where "recreate_folder folder w = (Inr (), wa)"
    by (rule save_report_Inr)
  from recreate_folder_Inr [OF this False] show ?thesis by simp
qed

lemma below_plots:
  assumes "strict_prefix f q" and "prefix q (f @ [c])"
  shows "q = f @ [c]"
proof -
  from assms(1) obtain zs where z: "q = f @ zs" "zs \<noteq> []"
    by (auto simp: strict_prefix_def prefix_def)
  then obtain x xs where "zs = x # xs" by (cases zs) auto
  with z assms(2) show ?thesis by (auto simp: prefix_def Cons_eq_append_conv)
qed

lemma report_not_png:
  assumes "folder \<noteq> []"
  shows "\<not> suffix ''.png'' (last (abspath w (folder @ ''/'' @ name @ ''.html'')))"
    and "\<not> suffix ''.png'' (last (abspath w (folder @ ''/'' @ name @ ''.md'')))"
  using last_abspath_report [OF assms, of "''.html''" w name]
    last_abspath_report [OF assms, of "''.md''" w name]
  by (simp_all add: html_not_png md_not_png)

lemma png_is_png: "suffix ''.png'' (last (f @ [''plots'', key @ ''.png'']))"
  by (simp add: suffix_def)

lemma save_report_worlds:
  assumes "save_report lib self folder name w = (Inr (), self1, w1)"
  shows "cwd w1 = cwd w \<and> folder \<noteq> [] \<and>
    (\<exists>html md. generate_html_report lib self1 folder True w1 = Inr html \<and>
       bind_res (generate_html_report lib self1 folder False w1) (markdownify lib) = Inr md \<and>
       node_at w1 (abspath w (folder @ ''/'' @ name @ ''.html'')) = Some (File html) \<and>
       node_at w1 (abspath w (folder @ ''/'' @ name @ ''.md'')) = Some (File md)) \<and>
    node_at w1 (abspath w folder @ [''plots'']) = Some Dir \<and>
    (\<forall>key plot_func. (key, plot_func) \<in> set (plot_table_of self1) \<longrightarrow>
       (\<exists>fig. plot_func lib self1 = Inr fig \<and>
          node_at w1 (abspath w folder @ [''plots'', key @ ''.png'']) = Some (File fig))) \<and>
    (folder \<noteq> ''.'' \<longrightarrow> node_at w1 (abspath w folder) = Some Dir \<and> os_path_exists folder w1) \<and>
    (folder \<noteq> ''.'' \<and> (os_path_exists folder w \<or> well_formed w) \<longrightarrow>
       (\<forall>q. strict_prefix (abspath w folder) q \<longrightarrow>
          (node_at w1 q \<noteq> None \<longleftrightarrow> is_product self1 w folder name q)))"
proof -
  from assms obtain wa wb where
    a: "recreate_folder folder w = (Inr (), wa)"
    and b: "save_plots lib self1 folder wa = (Inr (), wb)"
    and c: "write_reports lib self1 folder name wb = (Inr (), w1)"
    by (rule save_report_Inr)
  note ne = save_report_nonempty [OF assms]
  have ca: "cwd wa = cwd w"
    using a recreate_folder_Inr [OF a] by (cases "folder = ''.''") (simp_all add: recreate_folder_def)
  then have pa: "\<And>x. abspath wa x = abspath w x" by (rule abspath_cwd)
  note rb = save_plots_Inr [OF b ne, unfolded pa]
  from rb ca have "cwd wb = cwd w" by simp
  then have pb: "\<And>x. abspath wb x = abspath w x" by (rule abspath_cwd)
  note rc = write_reports_Inr [OF c ne, unfolded pb]
  let ?F = "abspath w folder"
  let ?P = "abspath w folder @ [''plots'']"
  let ?H = "abspath w (folder @ ''/'' @ name @ ''.html'')"
  let ?M = "abspath w (folder @ ''/'' @ name @ ''.md'')"
  let ?pngs = "map (\<lambda>(key, plot_func). abspath w folder @ [''plots'', key @ ''.png'']) (plot_table_of self1)"
  from rb have rb1: "\<forall>q. node_at wa q = Some Dir \<and> \<not> prefix ?P q \<longrightarrow> node_at wb q = Some Dir"
    and rb2: "\<forall>q. node_at wb q \<noteq> None \<longrightarrow> node_at wa q \<noteq> None \<or> prefix q ?P \<or> q \<in> set ?pngs"
    and rb3: "\<forall>key plot_func. (key, plot_func) \<in> set (plot_table_of self1) \<longrightarrow>
       (\<exists>fig. plot_func lib self1 = Inr fig \<and>
          node_at wb (?F @ [''plots'', key @ ''.png'']) = Some (File fig))"
    by blast+
  from rc have cw: "cwd w1 = cwd wb"
    and rc1: "\<forall>q. node_at wb q = Some Dir \<longrightarrow> node_at w1 q = Some Dir"
    and rc2: "\<forall>q. q \<noteq> ?H \<and> q \<noteq> ?M \<longrightarrow> node_at w1 q = node_at wb q"
    and rc3: "node_at wb ?P = Some Dir"
    and rc4: "\<exists>html md. generate_html_report lib self1 folder True w1 = Inr html \<and>
       bind_res (generate_html_report lib self1 folder False w1) (markdownify lib) = Inr md \<and>
       node_at w1 ?H = Some (File html) \<and> node_at w1 ?M = Some (File md)"
    by blast+
  have c1: "cwd w1 = cwd w" using cw \<open>cwd wb = cwd w\<close> by simp
  then have p1: "\<And>x. abspath w1 x = abspath w x" by (rule abspath_cwd)
  have plots: "node_at w1 ?P = Some Dir" using rc1 rc3 by blast
  have png_frame: "node_at w1 (?F @ [''plots'', key @ ''.png'']) = node_at wb (?F @ [''plots'', key @ ''.png''])"
    for key
  proof -
    have "?F @ [''plots'', key @ ''.png''] \<noteq> ?H"
      using png_is_png [of ?F key] report_not_png(1) [OF ne, of w name] by metis
    moreover have "?F @ [''plots'', key @ ''.png''] \<noteq> ?M"
      using png_is_png [of ?F key] report_not_png(2) [OF ne, of w name] by metis
    ultimately show ?thesis using rc2 by blast
  qed
  have pngs: "\<forall>key plot_func. (key, plot_func) \<in> set (plot_table_of self1) \<longrightarrow>
       (\<exists>fig. plot_func lib self1 = Inr fig \<and>
          node_at w1 (?F @ [''plots'', key @ ''.png'']) = Some (File fig))"
    using rb3 by (simp add: png_frame)
  have folder_dir: "node_at w1 ?F = Some Dir \<and> os_path_exists folder w1" if f: "folder \<noteq> ''.''"
  proof -
    from recreate_folder_Inr [OF a f] have "node_at wa ?F = Some Dir" by simp
    moreover have "\<not> prefix ?P ?F" by simp
    ultimately have "node_at wb ?F = Some Dir" using rb1 by blast
    with rc1 have d: "node_at w1 ?F = Some Dir" by blast
    then show ?thesis by (simp add: os_path_exists_def ne p1)
  qed
  have exact: "node_at w1 q \<noteq> None \<longleftrightarrow> is_product self1 w folder name q"
    if f: "folder \<noteq> ''.''" and o: "os_path_exists folder w \<or> well_formed w"
      and s: "strict_prefix ?F q" for q
  proof
    assume n: "node_at w1 q \<noteq> None"
    from recreate_folder_Inr [OF a f] o s have fresh: "node_at wa q = None" by blast
    show "is_product self1 w folder name q"
    proof (cases "q = ?H \<or> q = ?M")
      case True
      then show ?thesis unfolding is_product_def by blast
    next
      case False
      with rc2 n have "node_at wb q \<noteq> None" by simp
      with rb2 fresh have "prefix q ?P \<or> q \<in> set ?pngs" by blast
      moreover have "q = ?P" if "prefix q ?P"
        using s that by (rule below_plots)
      ultimately show ?thesis unfolding is_product_def by blast
    qed
  next
    assume "is_product self1 w folder name q"
    then consider "q = ?P" | "q \<in> set ?pngs" | "q = ?H" | "q = ?M"
      unfolding is_product_def by blast
    then show "node_at w1 q \<noteq> None"
    proof cases
      case 1
      with plots show ?thesis by simp
    next
      case 2
      then obtain key plot_func where "(key, plot_func) \<in> set (plot_table_of self1)"
        and "q = ?F @ [''plots'', key @ ''.png'']" by auto
      with pngs show ?thesis by fastforce
    next
      case 3
      with rc4 show ?thesis by auto
    next
      case 4
      with rc4 show ?thesis by auto
    qed
  qed
  from c1 ne rc4 plots pngs folder_dir exact show ?thesis by blast
qed

text \<open>
  C5, as stated, fails: not every folder and name give the two report files.  With the
  name \<^verbatim>\<open>sub/report\<close> the call recreates the folder \<^verbatim>\<open>out\<close>, saves the plots, and then
  raises \<^verbatim>\<open>FileNotFoundError\<close> when it opens \<^verbatim>\<open>out/sub/report.html\<close>: the fresh folder has
  no directory \<^verbatim>\<open>sub\<close>.  Neither report file exists afterwards.
\<close>

theorem save_report_subdirectory_counterexample:
  "fst (save_report fixture_library fixture_report ''out'' ''sub/report'' empty_world)
     = Inl FileNotFoundError \<and>
   node_at (snd (snd (save_report fixture_library fixture_report ''out'' ''sub/report'' empty_world)))
     [''out'', ''plots''] = Some Dir \<and>
   abspath empty_world ''out/sub/report.html'' = [''out'', ''sub'', ''report.html''] \<and>
   abspath empty_world ''out/sub/report.md'' = [''out'', ''sub'', ''report.md''] \<and>
   node_at (snd (snd (save_report fixture_library fixture_report ''out'' ''sub/report'' empty_world)))
     [''out'', ''sub'', ''report.html''] = None \<and>
   node_at (snd (snd (save_report fixture_library fixture_report ''out'' ''sub/report'' empty_world)))
     [''out'', ''sub'', ''report.md''] = None"
proof -
  have "case save_report fixture_library fixture_report ''out'' ''sub/report'' empty_world of
          (res, r, w) \<Rightarrow> res = Inl FileNotFoundError \<and> node_at w [''out'', ''plots''] = Some Dir \<and>
            node_at w [''out'', ''sub'', ''report.html''] = None \<and>
            node_at w [''out'', ''sub'', ''report.md''] = None"
    by code_simp
  moreover have "abspath empty_world ''out/sub/report.html'' = [''out'', ''sub'', ''report.html'']"
    and "abspath empty_world ''out/sub/report.md'' = [''out'', ''sub'', ''report.md'']"
    by code_simp+
  ultimately show ?thesis by (simp add: case_prod_beta)
qed

text \<open>
  C5, amended.  Let \<^verbatim>\<open>save_report(folder, name)\<close> return normally, for a folder and a name
  without a \<^verbatim>\<open>..\<close> component.  Then the two report files \<^verbatim>\<open>{folder}/{name}.html\<close> and
  \<^verbatim>\<open>{folder}/{name}.md\<close> exist and hold the HTML report with its style sheet and the
  Markdown conversion of the report without it; \<^verbatim>\<open>{folder}/plots\<close> is a directory, and for
  every plot of the task type the file \<^verbatim>\<open>{folder}/plots/{key}.png\<close> holds its figure.  When
  \<open>folder\<close> is not the string \<^verbatim>\<open>'.'\<close>, the folder is a directory afterwards, and if it
  existed before the call, or the file system had every node in a directory, then below
  the folder there is exactly this: the plots directory, one image per plot, and the two
  report files.  The same holds after a second save to the same folder, under whatever
  name: nothing of the first run is left that the second did not produce itself.
\<close>

theorem save_report_products_and_no_residue:
  assumes "save_report lib self folder name w = (Inr (), self1, w1)"
    and "plain folder" and "plain name"
  shows "(\<exists>html md. generate_html_report lib self1 folder True w1 = Inr html \<and>
            bind_res (generate_html_report lib self1 folder False w1) (markdownify lib) = Inr md \<and>
            node_at w1 (abspath w (folder @ ''/'' @ name @ ''.html'')) = Some (File html) \<and>
            node_at w1 (abspath w (folder @ ''/'' @ name @ ''.md'')) = Some (File md)) \<and>
         node_at w1 (abspath w folder @ [''plots'']) = Some Dir \<and>
         (\<forall>key plot_func. (key, plot_func) \<in> set (plot_table_of self1) \<longrightarrow>
            (\<exists>fig. plot_func lib self1 = Inr fig \<and>
               node_at w1 (abspath w folder @ [''plots'', key @ ''.png'']) = Some (File fig))) \<and>
         (folder \<noteq> ''.'' \<longrightarrow> node_at w1 (abspath w folder) = Some Dir) \<and>
         (folder \<noteq> ''.'' \<and> (os_path_exists folder w \<or> well_formed w) \<longrightarrow>
            (\<forall>q. strict_prefix (abspath w folder) q \<longrightarrow>
               (node_at w1 q \<noteq> None \<longleftrightarrow> is_product self1 w folder name q))) \<and>
         (folder \<noteq> ''.'' \<longrightarrow>
            (\<forall>name2 self2 w2.
               plain name2 \<and> save_report lib self1 folder name2 w1 = (Inr (), self2, w2) \<longrightarrow>
               (\<forall>q. strict_prefix (abspath w folder) q \<longrightarrow>
                  (node_at w2 q \<noteq> None \<longleftrightarrow> is_product self2 w folder name2 q))))"
proof -
  note first = save_report_worlds [OF assms(1)]
  have again: "node_at w2 q \<noteq> None \<longleftrightarrow> is_product self2 w folder name2 q"
    if f: "folder \<noteq> ''.''" and run: "save_report lib self1 folder name2 w1 = (Inr (), self2, w2)"
      and s: "strict_prefix (abspath w folder) q" for name2 self2 w2 q
  proof -
    from first f have c: "cwd w1 = cwd w" and e: "os_path_exists folder w1" by blast+
    from c have p: "\<And>x. abspath w1 x = abspath w x" by (rule abspath_cwd)
    from save_report_worlds [OF run] f e s
    have "node_at w2 q \<noteq> None \<longleftrightarrow> is_product self2 w1 folder name2 q"
      unfolding p by blast
    then show ?thesis by (simp add: is_product_def p)
  qed
  from first again show ?thesis by blast
qed

lemma triple_collapse: "fst x = a \<Longrightarrow> x = (a, fst (snd x), snd (snd x))"
  by (cases x) auto

theorem save_report_products_and_no_residue_witness:
  "\<exists>r1 w1 r2 w2.
     save_report fixture_library fixture_report ''out'' ''report'' stale_world = (Inr (), r1, w1) \<and>
     plain ''out'' \<and> plain ''report'' \<and> plain ''again'' \<and>
     os_path_exists ''out'' stale_world \<and>
     node_at stale_world [''out'', ''old.txt''] \<noteq> None \<and>
     node_at w1 [''out'', ''old.txt''] = None \<and>
     node_at w1 [''out'', ''report.html''] \<noteq> None \<and>
     node_at w1 [''out'', ''report.md''] \<noteq> None \<and>
     node_at w1 [''out'', ''plots'', ''roc_curve.png''] = Some (File ''figure of roc_curve'') \<and>
     save_report fixture_library r1 ''out'' ''again'' w1 = (Inr (), r2, w2) \<and>
     node_at w2 [''out'', ''report.html''] = None \<and>
     node_at w2 [''out'', ''again.html''] \<noteq> None"
proof -
  define run1 where "run1 = save_report fixture_library fixture_report ''out'' ''report'' stale_world"
  define r1 where "r1 = fst (snd run1)"
  define w1 where "w1 = snd (snd run1)"
  define run2 where "run2 = save_report fixture_library r1 ''out'' ''again'' w1"
  define r2 where "r2 = fst (snd run2)"
  define w2 where "w2 = snd (snd run2)"
  have "case save_report fixture_library fixture_report ''out'' ''report'' stale_world of
          (res, r, w) \<Rightarrow> res = Inr () \<and> fst (save_report fixture_library r ''out'' ''again'' w) = Inr ()"
    by code_simp
  then have f1: "fst run1 = Inr ()" and f2: "fst run2 = Inr ()"
    unfolding run2_def r1_def w1_def run1_def by (simp_all add: case_prod_beta)
  have "run1 = (Inr (), r1, w1)"
    unfolding r1_def w1_def using f1 by (rule triple_collapse)
  moreover have "run2 = (Inr (), r2, w2)"
    unfolding r2_def w2_def using f2 by (rule triple_collapse)
  ultimately have "run1 = (Inr (), r1, w1)" and "run2 = (Inr (), r2, w2)" .
  then have s1: "save_report fixture_library fixture_report ''out'' ''report'' stale_world = (Inr (), r1, w1)"
    and s2: "save_report fixture_library r1 ''out'' ''again'' w1 = (Inr (), r2, w2)"
    unfolding run1_def run2_def .
  have pl: "plain ''out''" "plain ''report''" "plain ''again''" by code_simp+
  have e: "os_path_exists ''out'' stale_world" by code_simp
  have o: "node_at stale_world [''out'', ''old.txt''] \<noteq> None" by code_simp
  have f: "abspath stale_world ''out'' = [''out'']"
    and h1: "abspath stale_world ''out/report.html'' = [''out'', ''report.html'']"
    and m1: "abspath stale_world ''out/report.md'' = [''out'', ''report.md'']"
    and h2: "abspath stale_world ''out/again.html'' = [''out'', ''again.html'']"
    and m2: "abspath stale_world ''out/again.md'' = [''out'', ''again.md'']"
    by code_simp+
  note t = save_report_products_and_no_residue [OF s1 pl(1) pl(2), simplified]
  have n: "''out'' \<noteq> ''.''" by simp
  from t have "\<exists>html md. node_at w1 [''out'', ''report.html''] = Some (File html) \<and>
      node_at w1 [''out'', ''report.md''] = Some (File md)"
    by (auto simp: h1 m1)
  then have p1: "node_at w1 [''out'', ''report.html''] \<noteq> None"
    and p2: "node_at w1 [''out'', ''report.md''] \<noteq> None" by auto
  have np1: "\<not> is_product r1 stale_world ''out'' ''report'' [''out'', ''old.txt'']"
    by (auto simp: is_product_def f h1 m1)
  from t n e have "strict_prefix [''out''] [''out'', ''old.txt''] \<longrightarrow>
      (node_at w1 [''out'', ''old.txt''] \<noteq> None
       \<longleftrightarrow> is_product r1 stale_world ''out'' ''report'' [''out'', ''old.txt''])"
    unfolding f by blast
  with np1 have g1: "node_at w1 [''out'', ''old.txt''] = None"
    by (auto simp: strict_prefix_def)
  have "MetricsReport_target_info fixture_library fixture_report = Inr r1"
    using s1 by (rule save_report_Inr)
  from MetricsReport_target_info_frame [OF this]
  have "task_type r1 = task_type fixture_report"
    by (metis metrics_report.select_convs(1) metrics_report.surjective metrics_report.update_convs(6))
  moreover have "task_type fixture_report = ''classification''" by code_simp
  ultimately have "(''roc_curve'', plot_roc_curve) \<in> set (plot_table_of r1)"
    by (simp add: plot_table_of_def classification_plot_table_def)
  with t obtain fig where "plot_roc_curve fixture_library r1 = Inr fig"
    and "node_at w1 ([''out''] @ [''plots'', ''roc_curve'' @ ''.png'']) = Some (File fig)"
    unfolding f by blast
  then have g: "node_at w1 [''out'', ''plots'', ''roc_curve.png''] = Some (File ''figure of roc_curve'')"
    by (auto simp: plot_roc_curve_def fixture_library_def)
  have np2: "\<not> is_product r2 stale_world ''out'' ''again'' [''out'', ''report.html'']"
    by (auto simp: is_product_def f h2 m2)
  from t n pl(3) s2 have "strict_prefix [''out''] [''out'', ''report.html''] \<longrightarrow>
      (node_at w2 [''out'', ''report.html''] \<noteq> None
       \<longleftrightarrow> is_product r2 stale_world ''out'' ''again'' [''out'', ''report.html''])"
    unfolding f by blast
  with np2 have g2: "node_at w2 [''out'', ''report.html''] = None"
    by (auto simp: strict_prefix_def)
  have "is_product r2 stale_world ''out'' ''again'' [''out'', ''again.html'']"
    by (simp add: is_product_def h2)
  moreover from t n pl(3) s2 have "strict_prefix [''out''] [''out'', ''again.html''] \<longrightarrow>
      (node_at w2 [''out'', ''again.html''] \<noteq> None
       \<longleftrightarrow> is_product r2 stale_world ''out'' ''again'' [''out'', ''again.html''])"
    unfolding f by blast
  ultimately have p3: "node_at w2 [''out'', ''again.html''] \<noteq> None"
    by (auto simp: strict_prefix_def)
  from s1 pl e o g1 p1 p2 g s2 g2 p3 show ?thesis by blast
qed

end
